theory Spec2Isabelle
  imports Complex_Main
begin

section \<open>Offline cache controller (static/sw.js)\<close>

text \<open>
  The service worker keeps named caches in the browser's cache storage. A cache maps a
  request (here: its URL) to a stored response; the storage lists the caches in the order
  they were created, which is the order \<^verbatim>\<open>caches.keys()\<close> reports and
  \<^verbatim>\<open>caches.match\<close> searches.
\<close>

type_synonym url = string

record response =
  status :: nat
  body :: string

text \<open>A \<^verbatim>\<open>fetch\<close> promise either rejects (network failure) or resolves to a response.\<close>

datatype net_result = NetworkError | Responded response

type_synonym network = "url \<Rightarrow> net_result"

type_synonym cache = "(url \<times> response) list"

type_synonym cache_storage = "(string \<times> cache) list"

record sw_state =
  storage :: cache_storage
  netlog :: "url list"

datatype sw_error = InstallRejected

definition CACHE_NAME :: string where
  "CACHE_NAME = ''fruitveg-cache-v2''"

definition urlsToCache :: "url list" where
  "urlsToCache =
     [ ''/'',
       ''/login'',
       ''/static/css/style.css'',
       ''/static/js/main.js'',
       ''/static/manifest.json'',
       ''/static/images/android-chrome-192x192.png'',
       ''/static/images/android-chrome-512x512.png'',
       ''/static/images/apple-touch-icon.png'',
       ''/static/images/favicon-16x16.png'',
       ''/static/images/favicon-32x32.png'',
       ''/static/images/favicon.ico'' ]"

subsection \<open>The cache storage interface used by the worker\<close>

definition caches_keys :: "cache_storage \<Rightarrow> string list" where
  "caches_keys cs = map fst cs"

text \<open>\<^verbatim>\<open>caches.open(name)\<close> creates an empty cache when none of that name exists.\<close>

definition caches_open :: "string \<Rightarrow> cache_storage \<Rightarrow> cache_storage" where
  "caches_open name cs = (if name \<in> set (caches_keys cs) then cs else cs @ [(name, [])])"

definition caches_delete :: "string \<Rightarrow> cache_storage \<Rightarrow> cache_storage" where
  "caches_delete name cs = filter (\<lambda>entry. fst entry \<noteq> name) cs"

definition cache_match :: "cache \<Rightarrow> url \<Rightarrow> response option" where
  "cache_match c req = map_of c req"

text \<open>\<^verbatim>\<open>caches.match(request)\<close>: the first cache, in creation order, that holds the request.\<close>

fun caches_match :: "cache_storage \<Rightarrow> url \<Rightarrow> response option" where
  "caches_match [] req = None"
| "caches_match (entry # cs) req =
     (case cache_match (snd entry) req of
        Some r \<Rightarrow> Some r
      | None \<Rightarrow> caches_match cs req)"

definition cache_put :: "url \<Rightarrow> response \<Rightarrow> cache \<Rightarrow> cache" where
  "cache_put u r c = (u, r) # filter (\<lambda>entry. fst entry \<noteq> u) c"

definition response_ok :: "response \<Rightarrow> bool" where
  "response_ok r = (200 \<le> status r \<and> status r \<le> 299)"

text \<open>
  \<^verbatim>\<open>cache.addAll(urls)\<close> fetches every URL and stores the responses only when each
  fetch resolved with an ok status; otherwise it rejects and stores nothing.
\<close>

fun fetch_all :: "network \<Rightarrow> url list \<Rightarrow> response list option" where
  "fetch_all net [] = Some []"
| "fetch_all net (u # us) =
     (case net u of
        NetworkError \<Rightarrow> None
      | Responded r \<Rightarrow>
          (if response_ok r
           then (case fetch_all net us of None \<Rightarrow> None | Some rs \<Rightarrow> Some (r # rs))
           else None))"

fun put_all :: "(url \<times> response) list \<Rightarrow> cache \<Rightarrow> cache" where
  "put_all [] c = c"
| "put_all (entry # es) c = put_all es (cache_put (fst entry) (snd entry) c)"

definition cache_addAll :: "network \<Rightarrow> url list \<Rightarrow> cache \<Rightarrow> cache option" where
  "cache_addAll net urls c =
     (case fetch_all net urls of
        None \<Rightarrow> None
      | Some rs \<Rightarrow> Some (put_all (zip urls rs) c))"

definition storage_cache :: "cache_storage \<Rightarrow> string \<Rightarrow> cache" where
  "storage_cache cs name = (case map_of cs name of None \<Rightarrow> [] | Some c \<Rightarrow> c)"

definition storage_set :: "string \<Rightarrow> cache \<Rightarrow> cache_storage \<Rightarrow> cache_storage" where
  "storage_set name c cs = map (\<lambda>entry. if fst entry = name then (name, c) else entry) cs"

subsection \<open>The three event listeners\<close>

text \<open>
  \<^verbatim>\<open>install\<close>: open the versioned cache, then \<^verbatim>\<open>addAll(urlsToCache)\<close>. The promise
  given to \<^verbatim>\<open>waitUntil\<close> rejects when \<^verbatim>\<open>addAll\<close> rejects.
\<close>

definition install :: "network \<Rightarrow> sw_state \<Rightarrow> (sw_error + unit) \<times> sw_state" where
  "install net st =
     (let cs = caches_open CACHE_NAME (storage st);
          st1 = st\<lparr>storage := cs, netlog := netlog st @ urlsToCache\<rparr>
      in case cache_addAll net urlsToCache (storage_cache cs CACHE_NAME) of
           None \<Rightarrow> (Inl InstallRejected, st1)
         | Some c \<Rightarrow> (Inr (), st1\<lparr>storage := storage_set CACHE_NAME c cs\<rparr>))"

text \<open>
  \<^verbatim>\<open>activate\<close>: \<^verbatim>\<open>caches.keys()\<close>, keep the names different from \<^verbatim>\<open>CACHE_NAME\<close>,
  and \<^verbatim>\<open>caches.delete\<close> each of them.
\<close>

definition activate :: "sw_state \<Rightarrow> sw_state" where
  "activate st =
     st\<lparr>storage :=
          fold caches_delete
            (filter (\<lambda>name. name \<noteq> CACHE_NAME) (caches_keys (storage st)))
            (storage st)\<rparr>"

text \<open>
  \<^verbatim>\<open>fetch\<close>: \<^verbatim>\<open>caches.match(event.request)\<close>, then
  \<^verbatim>\<open>response || fetch(event.request)\<close>. The first component is what
  \<^verbatim>\<open>respondWith\<close> receives.
\<close>

definition fetch_handler :: "network \<Rightarrow> sw_state \<Rightarrow> url \<Rightarrow> net_result \<times> sw_state" where
  "fetch_handler net st req =
     (case caches_match (storage st) req of
        Some r \<Rightarrow> (Responded r, st)
      | None \<Rightarrow> (net req, st\<lparr>netlog := netlog st @ [req]\<rparr>))"

text \<open>
  What \<^verbatim>\<open>addAll\<close> needs of one URL, and the response the network gives for it.
\<close>

definition url_reachable :: "network \<Rightarrow> url \<Rightarrow> bool" where
  "url_reachable net u = (case net u of NetworkError \<Rightarrow> False | Responded r \<Rightarrow> response_ok r)"

definition fetched :: "network \<Rightarrow> url \<Rightarrow> response option" where
  "fetched net u = (case net u of NetworkError \<Rightarrow> None | Responded r \<Rightarrow> Some r)"

section \<open>Page controller (static/js/main.js)\<close>

subsection \<open>Strings, class lists and errors\<close>

text \<open>
  A JavaScript string is a sequence of UTF-16 code units. Element ids, class names and
  other ASCII literals of the script are kept as \<^typ>\<open>string\<close>; text that comes from
  the user, the server or a literal with non-ASCII characters is a list of code units.
\<close>

type_synonym jsstring = "nat list"

definition js :: "string \<Rightarrow> jsstring" where
  "js s = map of_char s"

text \<open>The code units that \<^verbatim>\<open>String.prototype.trim\<close> strips: white space and line terminators.\<close>

definition is_whitespace :: "nat \<Rightarrow> bool" where
  "is_whitespace u =
     (u \<in> set [0x09, 0x0A, 0x0B, 0x0C, 0x0D, 0x20, 0xA0, 0x1680,
                0x2028, 0x2029, 0x202F, 0x205F, 0x3000, 0xFEFF]
      \<or> (0x2000 \<le> u \<and> u \<le> 0x200A))"

definition trim :: "jsstring \<Rightarrow> jsstring" where
  "trim s = rev (dropWhile is_whitespace (rev (dropWhile is_whitespace s)))"

text \<open>
  A thrown \<^verbatim>\<open>TypeError\<close> (a property read on \<^verbatim>\<open>null\<close>), a \<^verbatim>\<open>fetch\<close> that rejects,
  and a response body that \<^verbatim>\<open>res.json()\<close> cannot parse.
\<close>

datatype js_error = TypeError | NetworkFailure | SyntaxError

definition classList_add :: "string \<Rightarrow> string list \<Rightarrow> string list" where
  "classList_add c cl = (if c \<in> set cl then cl else cl @ [c])"

definition classList_remove :: "string \<Rightarrow> string list \<Rightarrow> string list" where
  "classList_remove c cl = filter (\<lambda>x. x \<noteq> c) cl"

definition classList_toggle :: "string \<Rightarrow> string list \<Rightarrow> string list" where
  "classList_toggle c cl = (if c \<in> set cl then classList_remove c cl else classList_add c cl)"

record confetti_call =
  particleCount :: nat
  spread :: nat
  origin_y :: real

subsection \<open>Tab switching\<close>

text \<open>
  The document, as far as the tab listener reads it: its elements in document order, each
  with its \<^verbatim>\<open>id\<close> attribute, its class list and its \<^verbatim>\<open>data-tab\<close> attribute.
\<close>

record node =
  node_id :: "string option"
  classes :: "string list"
  data_tab :: "string option"

type_synonym document = "node list"

fun getElementById :: "document \<Rightarrow> string \<Rightarrow> nat option" where
  "getElementById [] x = None"
| "getElementById (n # ns) x =
     (if node_id n = Some x then Some 0
      else (case getElementById ns x of None \<Rightarrow> None | Some j \<Rightarrow> Some (Suc j)))"

text \<open>\<^verbatim>\<open>document.querySelectorAll('.c').forEach(e => e.classList.remove('active'))\<close>\<close>

definition deactivate_all :: "string \<Rightarrow> document \<Rightarrow> document" where
  "deactivate_all c doc =
     map (\<lambda>n. if c \<in> set (classes n)
              then n\<lparr>classes := classList_remove ''active'' (classes n)\<rparr> else n) doc"

definition activate_node :: "nat \<Rightarrow> document \<Rightarrow> document" where
  "activate_node i doc = doc[i := (doc ! i)\<lparr>classes := classList_add ''active'' (classes (doc ! i))\<rparr>]"

text \<open>
  The click listener of the element at position \<open>i\<close>; only elements of class
  \<^verbatim>\<open>tab-btn\<close> carry it. A missing \<^verbatim>\<open>data-tab\<close> attribute reads as \<^verbatim>\<open>undefined\<close>,
  which \<^verbatim>\<open>getElementById\<close> turns into the string \<^verbatim>\<open>"undefined"\<close>; when no element has
  the id, \<^verbatim>\<open>.classList\<close> throws after the first three statements have run.
\<close>

definition tab_click :: "nat \<Rightarrow> document \<Rightarrow> js_error option \<times> document" where
  "tab_click i doc =
     (if i < length doc \<and> ''tab-btn'' \<in> set (classes (doc ! i)) then
        (let doc1 = deactivate_all ''tab-btn'' doc;
             doc2 = deactivate_all ''tab-content'' doc1;
             doc3 = activate_node i doc2;
             target = (case data_tab (doc3 ! i) of None \<Rightarrow> ''undefined'' | Some t \<Rightarrow> t)
         in case getElementById doc3 target of
              None \<Rightarrow> (Some TypeError, doc3)
            | Some j \<Rightarrow> (None, activate_node j doc3))
      else (None, doc))"

text \<open>The positions of the tab buttons, and of the tab panels, that carry class \<^verbatim>\<open>active\<close>.\<close>

definition active_buttons :: "document \<Rightarrow> nat list" where
  "active_buttons doc =
     filter (\<lambda>k. ''tab-btn'' \<in> set (classes (doc ! k)) \<and> ''active'' \<in> set (classes (doc ! k)))
       [0..<length doc]"

definition active_panels :: "document \<Rightarrow> nat list" where
  "active_panels doc =
     filter (\<lambda>k. ''tab-content'' \<in> set (classes (doc ! k)) \<and> ''active'' \<in> set (classes (doc ! k)))
       [0..<length doc]"

subsection \<open>Fortune spinner\<close>




text \<open>
  \<^verbatim>\<open>Math.random()\<close> gives a binary64 number that is at least 0 and less than 1. Such
  a number is written \<open>(m, e)\<close> and stands for \<open>m / 2 ^ e\<close>, with a significand \<open>m\<close> of
  at most 53 bits and \<open>e\<close> at most 1074. The script draws two of them, independently.
\<close>

type_synonym double = "nat \<times> nat"


definition is_random :: "double \<Rightarrow> bool" where
  "is_random d = (fst d < 2 ^ 53 \<and> fst d < 2 ^ snd d \<and> snd d \<le> 1074)"

text \<open>
  \<^verbatim>\<open>Math.floor(Math.random() * n)\<close> for a positive integer constant \<open>n\<close>. The product
  \<open>m * n / 2 ^ e\<close> is rounded to the nearest binary64 number, ties to the even significand:
  the integer \<open>m * n\<close> is rounded to 53 significant bits. The floor is taken of the rounded
  product.
\<close>

fun bit_length :: "nat \<Rightarrow> nat" where
  "bit_length n = (if n = 0 then 0 else Suc (bit_length (n div 2)))"

declare bit_length.simps [simp del]

definition round_to :: "nat \<Rightarrow> nat \<Rightarrow> nat" where
  "round_to k p =
     (let q = p div 2 ^ k; rest = p mod 2 ^ k
      in if 2 ^ k < 2 * rest \<or> (2 * rest = 2 ^ k \<and> odd q) then (q + 1) * 2 ^ k else q * 2 ^ k)"

definition round53 :: "nat \<Rightarrow> nat" where
  "round53 p = round_to (bit_length p - 53) p"

definition floor_times :: "double \<Rightarrow> nat \<Rightarrow> nat" where
  "floor_times d n = round53 (fst d * n) div 2 ^ snd d"






subsection \<open>BerryBot chat widget\<close>

text \<open>
  An element created by the widget: its identity, its \<^verbatim>\<open>className\<close> and the markup
  assigned to \<^verbatim>\<open>innerHTML\<close>.
\<close>

record element =
  el_id :: nat
  className :: string
  innerHTML :: jsstring

text \<open>
  A call of \<^verbatim>\<open>fetch\<close>: URL, method, headers and the object handed to
  \<^verbatim>\<open>JSON.stringify\<close> for the body, as its list of properties.
\<close>

record request =
  req_url :: string
  req_method :: string
  req_headers :: "(string \<times> string) list"
  req_body :: "(string \<times> jsstring) list"

text \<open>The effects of the widget on the page and the network, in the order they happen.\<close>

datatype action =
    AppendMessage string jsstring
  | ClearInput
  | AppendTyping
  | Fetch request
  | RemoveTyping

record recognition =
  lang :: string
  interimResults :: bool

text \<open>
  The widget's state. \<open>panel\<close>, \<open>msgContainer\<close> and \<open>inputField\<close> are \<open>None\<close> when
  \<^verbatim>\<open>getElementById\<close> gave \<^verbatim>\<open>null\<close>; otherwise they hold the panel's class list, the
  children of the transcript and the value of the text input. \<open>typingEl\<close> is the one
  shared variable of that name, holding the identity of the element it refers to.
  \<open>next_id\<close> is the identity the next \<^verbatim>\<open>createElement\<close> gives. \<open>pending\<close> lists the calls
  of \<^verbatim>\<open>sendMessage\<close> suspended at \<^verbatim>\<open>await\<close>, each named by the identity of its typing
  placeholder. \<open>unhandled\<close> collects the rejections of promises nobody observes. The scroll
  position of the transcript is layout and is left out.
\<close>

record chat =
  panel :: "string list option"
  msgContainer :: "element list option"
  inputField :: "jsstring option"
  typingEl :: "nat option"
  next_id :: nat
  pending :: "nat list"
  trace :: "action list"
  unhandled :: "js_error list"
  alerts :: "string list"
  recognitions :: "recognition list"

datatype settled = Fulfilled | Rejected js_error

text \<open>
  What comes back for one request: \<^verbatim>\<open>fetch\<close> rejects; or \<^verbatim>\<open>res.json()\<close> rejects; or
  the body is the JSON value \<^verbatim>\<open>null\<close>, which cannot be destructured; or the body is any
  other JSON value, given by its \<^verbatim>\<open>reply\<close> property as the template literal prints it
  (a string prints as itself), \<open>None\<close> when there is no such property.
\<close>

datatype fetch_outcome = FetchRejects | BodyNotJSON | BodyNull | BodyJSON "jsstring option"

definition typing_html :: jsstring where
  \<open>typing_html =
     js ''<div class="bubble">'' @ [0xD83C, 0xDF53] @ js '' BerryBot is typing'' @ [0x2026]
       @ js ''</div>''\<close>

definition bubble :: "jsstring \<Rightarrow> jsstring" where
  \<open>bubble text = js ''<div class="bubble">'' @ text @ js ''</div>''\<close>

definition appendTypingIndicator :: "chat \<Rightarrow> js_error option \<times> chat" where
  "appendTypingIndicator st =
     (let el = \<lparr>el_id = next_id st, className = ''message bot'', innerHTML = typing_html\<rparr>;
          st1 = st\<lparr>typingEl := Some (el_id el), next_id := Suc (next_id st)\<rparr>
      in case msgContainer st1 of
           None \<Rightarrow> (Some TypeError, st1)
         | Some kids \<Rightarrow>
             (None, st1\<lparr>msgContainer := Some (kids @ [el]), trace := trace st1 @ [AppendTyping]\<rparr>))"

definition removeTypingIndicator :: "chat \<Rightarrow> chat" where
  "removeTypingIndicator st =
     (case typingEl st of
        None \<Rightarrow> st
      | Some t \<Rightarrow>
          st\<lparr>msgContainer := map_option (filter (\<lambda>e. el_id e \<noteq> t)) (msgContainer st),
             trace := trace st @ [RemoveTyping]\<rparr>)"

definition appendMessage :: "string \<Rightarrow> jsstring \<Rightarrow> chat \<Rightarrow> js_error option \<times> chat" where
  "appendMessage who text st =
     (let msgEl = \<lparr>el_id = next_id st, className = ''message '' @ who, innerHTML = bubble text\<rparr>;
          st1 = st\<lparr>next_id := Suc (next_id st)\<rparr>
      in case msgContainer st1 of
           None \<Rightarrow> (Some TypeError, st1)
         | Some kids \<Rightarrow>
             (None, st1\<lparr>msgContainer := Some (kids @ [msgEl]),
                        trace := trace st1 @ [AppendMessage who text]\<rparr>))"

definition berrybot_request :: "jsstring \<Rightarrow> request" where
  "berrybot_request prompt =
     \<lparr>req_url = ''/api/berrybot'', req_method = ''POST'',
      req_headers = [(''Content-Type'', ''application/json'')],
      req_body = [(''prompt'', prompt)]\<rparr>"

text \<open>
  \<^verbatim>\<open>sendMessage(text = null)\<close> up to \<^verbatim>\<open>await fetch(...)\<close>. The result is \<open>Inl\<close> when
  the call settles without reaching the request (the early return, or a throw), and
  \<open>Inr\<close> with the name of the suspended call when the request has been issued.
\<close>

definition sendMessage_begin :: "jsstring option \<Rightarrow> chat \<Rightarrow> (settled + nat) \<times> chat" where
  "sendMessage_begin text st =
     (case (case text of
              Some t \<Rightarrow> Inr t
            | None \<Rightarrow> (case inputField st of None \<Rightarrow> Inl TypeError | Some v \<Rightarrow> Inr (trim v))) of
        Inl e \<Rightarrow> (Inl (Rejected e), st)
      | Inr prompt \<Rightarrow>
          if prompt = [] then (Inl Fulfilled, st)
          else
            (case appendMessage ''user'' prompt st of
               (Some e, st1) \<Rightarrow> (Inl (Rejected e), st1)
             | (None, st1) \<Rightarrow>
                 (case (if text = None \<or> text = Some []
                        then (case inputField st1 of
                                None \<Rightarrow> (Some TypeError, st1)
                              | Some v \<Rightarrow> (None, st1\<lparr>inputField := Some [],
                                                      trace := trace st1 @ [ClearInput]\<rparr>))
                        else (None, st1)) of
                    (Some e, st2) \<Rightarrow> (Inl (Rejected e), st2)
                  | (None, st2) \<Rightarrow>
                      (case appendTypingIndicator st2 of
                         (Some e, st3) \<Rightarrow> (Inl (Rejected e), st3)
                       | (None, st3) \<Rightarrow>
                           (Inr (next_id st2),
                            st3\<lparr>trace := trace st3 @ [Fetch (berrybot_request prompt)],
                                pending := pending st3 @ [next_id st2]\<rparr>)))))"

text \<open>The rest of \<^verbatim>\<open>sendMessage\<close>, run when the request comes back.\<close>

definition sendMessage_resume :: "fetch_outcome \<Rightarrow> chat \<Rightarrow> settled \<times> chat" where
  "sendMessage_resume outcome st =
     (case outcome of
        FetchRejects \<Rightarrow> (Rejected NetworkFailure, st)
      | BodyNotJSON \<Rightarrow> (Rejected SyntaxError, st)
      | BodyNull \<Rightarrow> (Rejected TypeError, st)
      | BodyJSON reply \<Rightarrow>
          (case appendMessage ''bot'' (case reply of None \<Rightarrow> js ''undefined'' | Some r \<Rightarrow> r)
                  (removeTypingIndicator st) of
             (Some e, st1) \<Rightarrow> (Rejected e, st1)
           | (None, st1) \<Rightarrow> (Fulfilled, st1)))"

text \<open>One call of \<^verbatim>\<open>sendMessage\<close> run from start to end with nothing in between.\<close>

definition sendMessage :: "jsstring option \<Rightarrow> fetch_outcome \<Rightarrow> chat \<Rightarrow> settled \<times> chat" where
  "sendMessage text outcome st =
     (case sendMessage_begin text st of
        (Inl s, st1) \<Rightarrow> (s, st1)
      | (Inr token, st1) \<Rightarrow>
          sendMessage_resume outcome (st1\<lparr>pending := removeAll token (pending st1)\<rparr>))"

text \<open>
  Every caller of \<^verbatim>\<open>sendMessage\<close> drops the promise it returns: no \<^verbatim>\<open>await\<close>, no
  \<^verbatim>\<open>then\<close>, no \<^verbatim>\<open>catch\<close>. A rejection of a dropped promise is an unhandled rejection.
\<close>

definition drop_promise :: "settled \<times> chat \<Rightarrow> chat" where
  "drop_promise p =
     (case fst p of
        Fulfilled \<Rightarrow> snd p
      | Rejected e \<Rightarrow> (snd p)\<lparr>unhandled := unhandled (snd p) @ [e]\<rparr>)"


text \<open>The listeners that call \<^verbatim>\<open>sendMessage\<close>, up to the point where the call suspends.\<close>

definition start_send :: "jsstring option \<Rightarrow> chat \<Rightarrow> chat" where
  "start_send text st =
     (case sendMessage_begin text st of
        (Inl s, st1) \<Rightarrow> drop_promise (s, st1)
      | (Inr token, st1) \<Rightarrow> st1)"

definition sendBtn_click :: "chat \<Rightarrow> chat" where
  "sendBtn_click st = start_send None st"

definition inputField_keypress :: "string \<Rightarrow> chat \<Rightarrow> chat" where
  "inputField_keypress key st = (if key = ''Enter'' then start_send None st else st)"

text \<open>
  The \<^verbatim>\<open>result\<close> listener of a recognition session; \<open>results\<close> holds the transcript of
  the first alternative of each result.
\<close>

definition recognition_result :: "jsstring list \<Rightarrow> chat \<Rightarrow> chat" where
  "recognition_result results st = start_send (Some (trim (concat results))) st"

text \<open>The request of the suspended call \<open>token\<close> comes back.\<close>

definition response_arrives :: "nat \<Rightarrow> fetch_outcome \<Rightarrow> chat \<Rightarrow> chat" where
  "response_arrives token outcome st =
     (if token \<in> set (pending st)
      then drop_promise (sendMessage_resume outcome (st\<lparr>pending := removeAll token (pending st)\<rparr>))
      else st)"

definition toggle_click :: "chat \<Rightarrow> js_error option \<times> chat" where
  "toggle_click st =
     (case panel st of
        None \<Rightarrow> (Some TypeError, st)
      | Some cl \<Rightarrow>
          (None, st\<lparr>panel := Some (classList_toggle ''visible'' (classList_toggle ''hidden'' cl))\<rparr>))"

text \<open>
  The click listener of the voice button. \<open>supported\<close> says whether
  \<^verbatim>\<open>SpeechRecognition\<close> or \<^verbatim>\<open>webkitSpeechRecognition\<close> is in \<^verbatim>\<open>window\<close>.
\<close>

definition voiceBtn_click :: "bool \<Rightarrow> chat \<Rightarrow> js_error option \<times> chat" where
  "voiceBtn_click supported st =
     (case panel st of
        None \<Rightarrow> (Some TypeError, st)
      | Some cl \<Rightarrow>
          (let st1 = st\<lparr>panel := Some (classList_add ''visible'' (classList_remove ''hidden'' cl))\<rparr>
           in if supported
              then (None, st1\<lparr>recognitions := recognitions st1 @
                                 [\<lparr>lang = ''en-US'', interimResults = False\<rparr>]\<rparr>)
              else (None, st1\<lparr>alerts := alerts st1 @
                                 [''Speech recognition not supported in this browser.'']\<rparr>)))"

text \<open>What can happen to the widget, and a run of such events in order.\<close>

datatype chat_event =
    SendClick
  | KeyPress string
  | VoiceResult "jsstring list"
  | Response nat fetch_outcome
  | ToggleClick
  | VoiceClick bool

fun chat_step :: "chat_event \<Rightarrow> chat \<Rightarrow> chat" where
  "chat_step SendClick st = sendBtn_click st"
| "chat_step (KeyPress key) st = inputField_keypress key st"
| "chat_step (VoiceResult results) st = recognition_result results st"
| "chat_step (Response token outcome) st = response_arrives token outcome st"
| "chat_step ToggleClick st = snd (toggle_click st)"
| "chat_step (VoiceClick supported) st = snd (voiceBtn_click supported st)"

definition chat_run :: "chat_event list \<Rightarrow> chat \<Rightarrow> chat" where
  "chat_run es st = fold chat_step es st"

definition transcript_ids :: "chat \<Rightarrow> nat list" where
  "transcript_ids st = (case msgContainer st of None \<Rightarrow> [] | Some kids \<Rightarrow> map el_id kids)"

text \<open>Identities are handed out in increasing order, so those in use lie below \<open>next_id\<close>.\<close>

definition chat_wf :: "chat \<Rightarrow> bool" where
  "chat_wf st = list_all (\<lambda>i. i < next_id st) (transcript_ids st @ pending st)"

text \<open>
  The events in which the suspended call \<open>token\<close> gets an answer it can destructure, and
  the events that neither start a send nor bring an answer.
\<close>

definition succeeds_for :: "nat \<Rightarrow> chat_event \<Rightarrow> bool" where
  "succeeds_for token e =
     (case e of
        Response t outcome \<Rightarrow> t = token \<and> (case outcome of BodyJSON reply \<Rightarrow> True | _ \<Rightarrow> False)
      | _ \<Rightarrow> False)"
definition quiet :: "chat_event \<Rightarrow> bool" where
  "quiet e =
     (case e of
        ToggleClick \<Rightarrow> True
      | VoiceClick supported \<Rightarrow> True
      | KeyPress key \<Rightarrow> key \<noteq> ''Enter''
      | _ \<Rightarrow> False)"


subsection \<open>Produce grid, chart toggle and initialisation\<close>

record produce =
  name :: string
  benefit :: string
  color :: string
  emoji :: jsstring

definition produceList :: "produce list" where
  "produceList =
     [ \<lparr>name = ''Orange'', benefit = ''Rich in Vitamin C'', color = ''#FFA500'', emoji = [0xD83C, 0xDF4A]\<rparr>,
       \<lparr>name = ''Pomegranate'', benefit = ''Boosts Blood Health'', color = ''#C62828'', emoji = [0xD83C, 0xDF4E]\<rparr>,
       \<lparr>name = ''Spinach'', benefit = ''Good for Overall Health'', color = ''#2E7D32'', emoji = [0xD83E, 0xDD6C]\<rparr>,
       \<lparr>name = ''Pumpkin'', benefit = ''Aids Digestion & Gut Health'', color = ''#F57C00'', emoji = [0xD83C, 0xDF83]\<rparr>,
       \<lparr>name = ''Apple'', benefit = ''High in Fiber & Vitamin C'', color = ''#D32F2F'', emoji = [0xD83C, 0xDF4F]\<rparr>,
       \<lparr>name = ''Blueberry'', benefit = ''Packed with Antioxidants'', color = ''#303F9F'', emoji = [0xD83E, 0xDED0]\<rparr>,
       \<lparr>name = ''Avocado'', benefit = ''Heart-Healthy Monounsaturated Fats'', color = ''#4CAF50'', emoji = [0xD83E, 0xDD51]\<rparr>,
       \<lparr>name = ''Tomato'', benefit = ''Rich in Lycopene & Vitamins A, C'', color = ''#E53935'', emoji = [0xD83C, 0xDF45]\<rparr>,
       \<lparr>name = ''Carrot'', benefit = ''Supports Eye Health with Beta-Carotene'', color = ''#FB8C00'', emoji = [0xD83E, 0xDD55]\<rparr>,
       \<lparr>name = ''Broccoli'', benefit = ''High in Fiber & Vitamins K, C'', color = ''#388E3C'', emoji = [0xD83E, 0xDD66]\<rparr>,
       \<lparr>name = ''Kiwi'', benefit = ''Vitamin C Powerhouse & Dietary Fiber'', color = ''#7CB342'', emoji = [0xD83E, 0xDD5D]\<rparr>,
       \<lparr>name = ''Strawberry'', benefit = ''Antioxidant-Rich & Vitamin C Boost'', color = ''#E91E63'', emoji = [0xD83C, 0xDF53]\<rparr>,
       \<lparr>name = ''Mango'', benefit = ''Rich in Vitamins A & C'', color = ''#FFB300'', emoji = [0xD83E, 0xDD6D]\<rparr>,
       \<lparr>name = ''Cucumber'', benefit = ''Hydrating & Low-Calorie Snack'', color = ''#81C784'', emoji = [0xD83E, 0xDD52]\<rparr>,
       \<lparr>name = ''Pineapple'', benefit = ''Aids Digestion with Bromelain'', color = ''#FF9800'', emoji = [0xD83C, 0xDF4D]\<rparr>,
       \<lparr>name = ''Banana'', benefit = ''Great Source of Potassium'', color = ''#FDD835'', emoji = [0xD83C, 0xDF4C]\<rparr>,
       \<lparr>name = ''Watermelon'', benefit = ''Hydrating & Rich in Vitamins A, C'', color = ''#FF5252'', emoji = [0xD83C, 0xDF49]\<rparr> ]"

text \<open>
  One card of the grid: the wrapper's class, its \<^verbatim>\<open>--color\<close> property, and the class and
  markup of the inner element. Code unit 10 is the line feed of the template literal.
\<close>

record hex_card =
  card_class :: string
  card_color :: string
  inner_class :: string
  inner_html :: jsstring

definition render_card :: "produce \<Rightarrow> hex_card" where
  \<open>render_card item =
     \<lparr>card_class = ''hex-card'', card_color = color item, inner_class = ''hex-card-inner'',
      inner_html =
        [10] @ js ''      <div class="hex-card-front">'' @
        [10] @ js ''        <div class="emoji">'' @ emoji item @ js ''</div>'' @
        [10] @ js ''        <div class="name">'' @ js (name item) @ js ''</div>'' @
        [10] @ js ''      </div>'' @
        [10] @ js ''      <div class="hex-card-back">'' @ js (benefit item) @ js ''</div>'' @
        [10] @ js ''    ''\<rparr>\<close>


text \<open>
  The click listener of the chart toggle, on the class list of the chart panel
  (\<open>None\<close> when \<^verbatim>\<open>getElementById('produceChart')\<close> gave \<^verbatim>\<open>null\<close>).
\<close>

definition chartToggle_click :: "string list option \<Rightarrow> js_error + string list \<times> confetti_call" where
  "chartToggle_click chartPanel_classes =
     (case chartPanel_classes of
        None \<Rightarrow> Inl TypeError
      | Some cl \<Rightarrow>
          Inr (classList_toggle ''revealed'' cl,
               \<lparr>particleCount = 20, spread = 30, origin_y = 0.6\<rparr>))"

text \<open>
  The page as the \<^verbatim>\<open>DOMContentLoaded\<close> callback finds it: the number of elements of
  class \<^verbatim>\<open>tab-btn\<close>, the ids that \<^verbatim>\<open>getElementById\<close> finds among those the callback
  attaches listeners to, and the children of the chart panel (\<open>None\<close> when the panel is
  absent). The callback leaves behind the listeners it registered, the functions it put
  on \<^verbatim>\<open>window\<close>, and the children of the chart panel.
\<close>

datatype target = TabButton nat | ElementId string

record page =
  tab_btn_count :: nat
  present_ids :: "string list"
  chartPanel :: "hex_card list option"

record wiring =
  listeners :: "(target \<times> string) list"
  globals :: "string list"
  chart_children :: "hex_card list option"

text \<open>\<^verbatim>\<open>document.getElementById(x)?.addEventListener(ev, ...)\<close>\<close>

definition listen_if_present :: "string list \<Rightarrow> string \<Rightarrow> string \<Rightarrow> (target \<times> string) list" where
  "listen_if_present ids x ev = (if x \<in> set ids then [(ElementId x, ev)] else [])"

text \<open>
  The callback in source order. \<^verbatim>\<open>chartToggle.addEventListener\<close> has no \<^verbatim>\<open>?.\<close>: with
  the toggle absent it throws and the statements after it do not run.
\<close>

definition page_init :: "page \<Rightarrow> js_error option \<times> wiring" where
  "page_init p =
     (let ids = present_ids p;
          ls = map (\<lambda>i. (TabButton i, ''click'')) [0..<tab_btn_count p]
               @ listen_if_present ids ''image-input'' ''change''
               @ listen_if_present ids ''spinBtn'' ''click''
               @ listen_if_present ids ''berrybot-toggle'' ''click''
               @ listen_if_present ids ''voice-btn'' ''click''
               @ listen_if_present ids ''berrybot-send'' ''click''
               @ listen_if_present ids ''berrybot-text'' ''keypress'';
          gs = [''openCamera'', ''captureImage'']
      in if ''chartToggle'' \<notin> set ids
         then (Some TypeError, \<lparr>listeners = ls, globals = gs, chart_children = chartPanel p\<rparr>)
         else (None,
               \<lparr>listeners = ls @ [(ElementId ''chartToggle'', ''click'')], globals = gs,
                chart_children =
                  (case chartPanel p of
                     None \<Rightarrow> None
                   | Some old \<Rightarrow> Some (map render_card produceList))\<rparr>))"

text \<open>The elements whose listener registration is guarded by \<^verbatim>\<open>?.\<close>\<close>

definition guarded_ids :: "string list" where
  "guarded_ids =
     [''image-input'', ''spinBtn'', ''berrybot-toggle'', ''voice-btn'', ''berrybot-send'',
      ''berrybot-text'']"


subsection \<open>Names for the elements and states the properties speak about\<close>

text \<open>The three kinds of element the chat widget appends, by identity and content.\<close>

definition user_el :: "nat \<Rightarrow> jsstring \<Rightarrow> element" where
  "user_el n prompt = \<lparr>el_id = n, className = ''message user'', innerHTML = bubble prompt\<rparr>"

definition typing_el :: "nat \<Rightarrow> element" where
  "typing_el n = \<lparr>el_id = n, className = ''message bot'', innerHTML = typing_html\<rparr>"

definition bot_el :: "nat \<Rightarrow> jsstring \<Rightarrow> element" where
  "bot_el n reply = \<lparr>el_id = n, className = ''message bot'', innerHTML = bubble reply\<rparr>"

text \<open>
  What keeps a typing placeholder \<open>t\<close> in the transcript: it is there, its identity is
  used up, and while \<^verbatim>\<open>typingEl\<close> still refers to it no other call is suspended.
\<close>

definition stuck_inv :: "nat \<Rightarrow> chat \<Rightarrow> bool" where
  "stuck_inv t s =
     (t \<in> set (transcript_ids s) \<and> t < next_id s \<and>
      (typingEl s = Some t \<longrightarrow> set (pending s) \<subseteq> {t}))"

text \<open>
  Sample states: the chat widget with an empty transcript and a hidden panel, a page with
  two tabs of which the first is active, and a spinner at rest.
\<close>

definition chat0 :: chat where
  "chat0 = \<lparr>panel = Some [''hidden''], msgContainer = Some [], inputField = Some [],
            typingEl = None, next_id = 0, pending = [], trace = [], unhandled = [],
            alerts = [], recognitions = []\<rparr>"

definition tabs0 :: document where
  "tabs0 =
     [ \<lparr>node_id = None, classes = [''tab-btn'', ''active''], data_tab = Some ''upload''\<rparr>,
       \<lparr>node_id = None, classes = [''tab-btn''], data_tab = Some ''camera''\<rparr>,
       \<lparr>node_id = Some ''upload'', classes = [''tab-content'', ''active''], data_tab = None\<rparr>,
       \<lparr>node_id = Some ''camera'', classes = [''tab-content''], data_tab = None\<rparr> ]"



section \<open>Properties of the offline cache controller\<close>

lemma fold_caches_delete:
  "fold caches_delete ns cs = filter (\<lambda>entry. fst entry \<notin> set ns) cs"
proof (induction ns arbitrary: cs)
  case Nil
  show ?case by simp
next
  case (Cons n ns)
  have "fold caches_delete (n # ns) cs = fold caches_delete ns (caches_delete n cs)"
    by simp
  also have "\<dots> = filter (\<lambda>entry. fst entry \<notin> set ns) (caches_delete n cs)"
    by (rule Cons.IH)
  also have "\<dots> = filter (\<lambda>entry. fst entry \<notin> set (n # ns)) cs"
    by (auto simp: caches_delete_def intro: filter_cong)
  finally show ?case .
qed

lemma activate_storage:
  "storage (activate st) = filter (\<lambda>entry. fst entry = CACHE_NAME) (storage st)"
proof -
  have "\<And>entry. entry \<in> set (storage st) \<Longrightarrow>
          (fst entry \<notin> set (filter (\<lambda>name. name \<noteq> CACHE_NAME) (caches_keys (storage st))))
            = (fst entry = CACHE_NAME)"
    by (auto simp: caches_keys_def)
  then show ?thesis
    by (simp add: activate_def fold_caches_delete cong: filter_cong)
qed

lemma fetch_all_Some:
  "list_all (url_reachable net) us \<Longrightarrow> fetch_all net us = Some (map (\<lambda>u. the (fetched net u)) us)"
  by (induction us) (auto simp: url_reachable_def fetched_def split: net_result.splits)

lemma fetch_all_None:
  "\<not> list_all (url_reachable net) us \<Longrightarrow> fetch_all net us = None"
  by (induction us) (auto simp: url_reachable_def split: net_result.splits option.splits)

lemma map_of_filter_fst:
  "map_of (filter (\<lambda>entry. fst entry \<noteq> u) c) k = (if k = u then None else map_of c k)"
  by (induction c) auto

lemma cache_match_put:
  "cache_match (cache_put u r c) k = (if k = u then Some r else cache_match c k)"
  by (simp add: cache_match_def cache_put_def map_of_filter_fst)

lemma cache_match_put_all:
  "cache_match (put_all (zip us (map f us)) c) k = (if k \<in> set us then Some (f k) else cache_match c k)"
  by (induction us arbitrary: c) (auto simp: cache_match_put)

lemma storage_cache_set:
  "nm \<in> set (caches_keys cs) \<Longrightarrow> storage_cache (storage_set nm c cs) nm = c"
  by (induction cs) (auto simp: storage_cache_def storage_set_def caches_keys_def)

lemma caches_open_keys: "nm \<in> set (caches_keys (caches_open nm cs))"
  by (simp add: caches_open_def caches_keys_def)

text \<open>
  Claim C1. For every intercepted request the cache storage is left as it was. When a cached
  response matches the request, the handler answers with that response and the state,
  network log included, is unchanged: no network call is made. When nothing matches, the
  handler answers with what the network returns for that request and the log grows by that
  one request.
\<close>

theorem fetch_cache_first:
  "storage (snd (fetch_handler net st req)) = storage st \<and>
   (\<forall>r. caches_match (storage st) req = Some r \<longrightarrow>
        fetch_handler net st req = (Responded r, st)) \<and>
   (caches_match (storage st) req = None \<longrightarrow>
        fst (fetch_handler net st req) = net req \<and>
        netlog (snd (fetch_handler net st req)) = netlog st @ [req])"
  by (simp add: fetch_handler_def split: option.splits)

theorem fetch_cache_first_witness:
  "caches_match [(CACHE_NAME, [(''/login'', \<lparr>status = 200, body = ''page''\<rparr>)])] ''/login''
     = Some \<lparr>status = 200, body = ''page''\<rparr> \<and>
   fetch_handler (\<lambda>u. NetworkError)
     \<lparr>storage = [(CACHE_NAME, [(''/login'', \<lparr>status = 200, body = ''page''\<rparr>)])], netlog = []\<rparr> ''/login''
     = (Responded \<lparr>status = 200, body = ''page''\<rparr>,
        \<lparr>storage = [(CACHE_NAME, [(''/login'', \<lparr>status = 200, body = ''page''\<rparr>)])], netlog = []\<rparr>) \<and>
   caches_match [(CACHE_NAME, [(''/login'', \<lparr>status = 200, body = ''page''\<rparr>)])] ''/api/berrybot'' = None \<and>
   fst (fetch_handler (\<lambda>u. Responded \<lparr>status = 404, body = u\<rparr>)
     \<lparr>storage = [(CACHE_NAME, [(''/login'', \<lparr>status = 200, body = ''page''\<rparr>)])], netlog = []\<rparr> ''/api/berrybot'')
     = Responded \<lparr>status = 404, body = ''/api/berrybot''\<rparr> \<and>
   netlog (snd (fetch_handler (\<lambda>u. Responded \<lparr>status = 404, body = u\<rparr>)
     \<lparr>storage = [(CACHE_NAME, [(''/login'', \<lparr>status = 200, body = ''page''\<rparr>)])], netlog = []\<rparr> ''/api/berrybot''))
     = [''/api/berrybot'']"
  using fetch_cache_first [of "\<lambda>u. NetworkError"
          "\<lparr>storage = [(CACHE_NAME, [(''/login'', \<lparr>status = 200, body = ''page''\<rparr>)])], netlog = []\<rparr>" "''/login''"]
        fetch_cache_first [of "\<lambda>u. Responded \<lparr>status = 404, body = u\<rparr>"
          "\<lparr>storage = [(CACHE_NAME, [(''/login'', \<lparr>status = 200, body = ''page''\<rparr>)])], netlog = []\<rparr>" "''/api/berrybot''"]
  by (simp add: cache_match_def)

text \<open>
  Claim C2, as stated, fails when the starting storage holds no cache of the current
  name: activation only deletes, so no cache at all is left.
\<close>

theorem activate_not_always_one_cache:
  "caches_keys (storage (activate \<lparr>storage = [(''fruitveg-cache-v1'', [])], netlog = []\<rparr>)) = [] \<and>
   length (caches_keys (storage (activate \<lparr>storage = [(''fruitveg-cache-v1'', [])], netlog = []\<rparr>))) \<noteq> 1"
  by (simp add: activate_def caches_keys_def caches_delete_def CACHE_NAME_def)

lemma filter_eq_distinct:
  "distinct ns \<Longrightarrow> filter (\<lambda>n. n = k) ns = (if k \<in> set ns then [k] else [])"
  by (induction ns) auto

text \<open>
  Claim C2, amended. Cache names are unique in a cache storage. Activation removes exactly
  the caches whose name differs from \<^verbatim>\<open>CACHE_NAME\<close> and leaves the cache of
  that name, if there is one, with its entries: afterwards the cache names are
  \<^verbatim>\<open>[CACHE_NAME]\<close> when the current cache existed before and empty otherwise, so
  at most one cache remains.
\<close>

theorem activate_keeps_only_current:
  assumes "distinct (caches_keys (storage st))"
  shows "storage (activate st) = filter (\<lambda>entry. fst entry = CACHE_NAME) (storage st) \<and>
         caches_keys (storage (activate st)) =
           (if CACHE_NAME \<in> set (caches_keys (storage st)) then [CACHE_NAME] else []) \<and>
         netlog (activate st) = netlog st"
proof -
  have "caches_keys (storage (activate st)) = filter (\<lambda>n. n = CACHE_NAME) (caches_keys (storage st))"
    by (simp add: activate_storage caches_keys_def filter_map comp_def)
  moreover have "netlog (activate st) = netlog st"
    by (simp add: activate_def)
  ultimately show ?thesis
    using assms by (simp add: activate_storage filter_eq_distinct)
qed

theorem activate_keeps_only_current_witness:
  "distinct (caches_keys [(''fruitveg-cache-v1'', []), (CACHE_NAME, [(''/'', \<lparr>status = 200, body = ''home''\<rparr>)]), (''other'', [])]) \<and>
   storage (activate \<lparr>storage = [(''fruitveg-cache-v1'', []), (CACHE_NAME, [(''/'', \<lparr>status = 200, body = ''home''\<rparr>)]), (''other'', [])], netlog = []\<rparr>)
     = [(CACHE_NAME, [(''/'', \<lparr>status = 200, body = ''home''\<rparr>)])]"
proof -
  have d: "distinct (caches_keys (storage \<lparr>storage = [(''fruitveg-cache-v1'', []), (CACHE_NAME, [(''/'', \<lparr>status = 200, body = ''home''\<rparr>)]), (''other'', [])], netlog = []\<rparr>))"
    by (simp add: caches_keys_def CACHE_NAME_def)
  show ?thesis
    using d activate_keeps_only_current [OF d]
    by (simp add: CACHE_NAME_def)
qed

text \<open>
  Claim C7. The asset list has 11 entries. When every listed URL is fetched with an ok
  status, the install step succeeds and the cache named \<^verbatim>\<open>CACHE_NAME\<close> answers
  each listed URL with the fetched response. When some listed URL fails, the install step
  is rejected and the storage is what \<^verbatim>\<open>caches.open\<close> alone leaves: no response
  of this install is stored.
\<close>

theorem install_all_or_nothing:
  "length urlsToCache = 11 \<and>
   (list_all (url_reachable net) urlsToCache \<longrightarrow>
      fst (install net st) = Inr () \<and>
      list_all (\<lambda>u. cache_match (storage_cache (storage (snd (install net st))) CACHE_NAME) u
                      = fetched net u \<and> fetched net u \<noteq> None) urlsToCache) \<and>
   (\<not> list_all (url_reachable net) urlsToCache \<longrightarrow>
      fst (install net st) = Inl InstallRejected \<and>
      storage (snd (install net st)) = caches_open CACHE_NAME (storage st))"
proof (intro conjI impI)
  show "length urlsToCache = 11" by (simp add: urlsToCache_def)
next
  assume ok: "list_all (url_reachable net) urlsToCache"
  let ?cs = "caches_open CACHE_NAME (storage st)"
  let ?c = "put_all (zip urlsToCache (map (\<lambda>u. the (fetched net u)) urlsToCache)) (storage_cache ?cs CACHE_NAME)"
  have eq: "install net st =
      (Inr (), st\<lparr>storage := storage_set CACHE_NAME ?c ?cs, netlog := netlog st @ urlsToCache\<rparr>)"
    by (simp add: install_def Let_def cache_addAll_def fetch_all_Some [OF ok])
  show "fst (install net st) = Inr ()" by (simp add: eq)
  have "\<And>u. u \<in> set urlsToCache \<Longrightarrow> fetched net u \<noteq> None \<and> Some (the (fetched net u)) = fetched net u"
    using ok by (auto simp: list_all_iff url_reachable_def fetched_def split: net_result.splits)
  then show "list_all (\<lambda>u. cache_match (storage_cache (storage (snd (install net st))) CACHE_NAME) u
                      = fetched net u \<and> fetched net u \<noteq> None) urlsToCache"
    unfolding list_all_iff
    by (simp add: eq storage_cache_set [OF caches_open_keys] cache_match_put_all)
next
  assume bad: "\<not> list_all (url_reachable net) urlsToCache"
  have eq: "install net st =
      (Inl InstallRejected, st\<lparr>storage := caches_open CACHE_NAME (storage st), netlog := netlog st @ urlsToCache\<rparr>)"
    by (simp add: install_def Let_def cache_addAll_def fetch_all_None [OF bad])
  show "fst (install net st) = Inl InstallRejected" by (simp add: eq)
  show "storage (snd (install net st)) = caches_open CACHE_NAME (storage st)" by (simp add: eq)
qed

theorem install_all_or_nothing_witness:
  "list_all (url_reachable (\<lambda>u. Responded \<lparr>status = 200, body = u\<rparr>)) urlsToCache \<and>
   fst (install (\<lambda>u. Responded \<lparr>status = 200, body = u\<rparr>) \<lparr>storage = [], netlog = []\<rparr>) = Inr () \<and>
   \<not> list_all (url_reachable (\<lambda>u. if u = ''/login'' then NetworkError else Responded \<lparr>status = 200, body = u\<rparr>)) urlsToCache \<and>
   fst (install (\<lambda>u. if u = ''/login'' then NetworkError else Responded \<lparr>status = 200, body = u\<rparr>) \<lparr>storage = [], netlog = []\<rparr>)
     = Inl InstallRejected \<and>
   storage (snd (install (\<lambda>u. if u = ''/login'' then NetworkError else Responded \<lparr>status = 200, body = u\<rparr>) \<lparr>storage = [], netlog = []\<rparr>))
     = [(CACHE_NAME, [])]"
proof -
  have a: "list_all (url_reachable (\<lambda>u. Responded \<lparr>status = 200, body = u\<rparr>)) urlsToCache"
    by (simp add: url_reachable_def response_ok_def urlsToCache_def)
  have b: "\<not> list_all (url_reachable (\<lambda>u. if u = ''/login'' then NetworkError else Responded \<lparr>status = 200, body = u\<rparr>)) urlsToCache"
    by (simp add: url_reachable_def response_ok_def urlsToCache_def)
  show ?thesis
    using a b
      install_all_or_nothing [of "\<lambda>u. Responded \<lparr>status = 200, body = u\<rparr>" "\<lparr>storage = [], netlog = []\<rparr>"]
      install_all_or_nothing [of "\<lambda>u. if u = ''/login'' then NetworkError else Responded \<lparr>status = 200, body = u\<rparr>" "\<lparr>storage = [], netlog = []\<rparr>"]
    by (simp add: caches_open_def caches_keys_def)
qed

text \<open>
  In the worker's life cycle \<^verbatim>\<open>install\<close> runs before \<^verbatim>\<open>activate\<close> and opens the
  current cache whether or not \<^verbatim>\<open>addAll\<close> succeeds, so after the two steps exactly the
  current cache exists.
\<close>

lemma keys_storage_set: "caches_keys (storage_set nm c cs) = caches_keys cs"
  by (induction cs) (auto simp: storage_set_def caches_keys_def)

lemma keys_caches_open:
  "caches_keys (caches_open nm cs) =
     (if nm \<in> set (caches_keys cs) then caches_keys cs else caches_keys cs @ [nm])"
  by (simp add: caches_open_def caches_keys_def)

lemma keys_install:
  "caches_keys (storage (snd (install net st))) = caches_keys (caches_open CACHE_NAME (storage st))"
  by (simp add: install_def Let_def keys_storage_set split: option.splits)

lemma install_then_activate_one_cache:
  assumes "distinct (caches_keys (storage st))"
  shows "caches_keys (storage (activate (snd (install net st)))) = [CACHE_NAME]"
proof -
  have k: "caches_keys (storage (activate (snd (install net st)))) =
           filter (\<lambda>n. n = CACHE_NAME) (caches_keys (storage (snd (install net st))))"
    by (simp add: activate_storage caches_keys_def filter_map comp_def)
  have d: "distinct (caches_keys (caches_open CACHE_NAME (storage st)))"
    using assms by (simp add: keys_caches_open)
  have m: "CACHE_NAME \<in> set (caches_keys (caches_open CACHE_NAME (storage st)))"
    by (rule caches_open_keys)
  show ?thesis
    using d m by (simp add: k keys_install filter_eq_distinct)
qed


section \<open>Properties of the page controller\<close>

subsection \<open>Tab switching\<close>

lemma getElementById_Some:
  "getElementById doc x = Some j \<Longrightarrow> j < length doc \<and> node_id (doc ! j) = Some x"
proof (induction doc arbitrary: j)
  case Nil
  then show ?case by simp
next
  case (Cons n ns)
  then show ?case
    by (cases j) (auto split: if_splits option.splits)
qed

lemma getElementById_ids:
  "map node_id doc = map node_id doc' \<Longrightarrow> getElementById doc x = getElementById doc' x"
proof (induction doc arbitrary: doc')
  case Nil
  then show ?case by simp
next
  case (Cons n ns)
  then obtain m ms where d: "doc' = m # ms" by (cases doc') auto
  with Cons.prems have "node_id n = node_id m" "map node_id ns = map node_id ms" by auto
  with Cons.IH [of ms] d show ?case by simp
qed

lemma ids_deactivate_all: "map node_id (deactivate_all c doc) = map node_id doc"
  by (simp add: deactivate_all_def comp_def)

lemma nth_activate_node:
  "k < length doc \<Longrightarrow>
   activate_node i doc ! k =
     (if k = i then (doc ! k)\<lparr>classes := classList_add ''active'' (classes (doc ! k))\<rparr>
      else doc ! k)"
  by (cases "k = i") (simp_all add: activate_node_def)

lemma ids_activate_node: "map node_id (activate_node i doc) = map node_id doc"
proof (rule nth_equalityI)
  show "length (map node_id (activate_node i doc)) = length (map node_id doc)"
    by (simp add: activate_node_def)
next
  fix k
  assume "k < length (map node_id (activate_node i doc))"
  then have k: "k < length doc"
    by (simp add: activate_node_def)
  then have "k < length (activate_node i doc)"
    by (simp add: activate_node_def)
  then show "map node_id (activate_node i doc) ! k = map node_id doc ! k"
    using k by (simp add: nth_activate_node)
qed

lemma length_deactivate_all: "length (deactivate_all c doc) = length doc"
  by (simp add: deactivate_all_def)

lemma length_activate_node: "length (activate_node i doc) = length doc"
  by (simp add: activate_node_def)

lemma classes_deactivate_all:
  "k < length doc \<Longrightarrow>
   set (classes (deactivate_all c doc ! k)) =
     (if c \<in> set (classes (doc ! k)) then set (classes (doc ! k)) - {''active''}
      else set (classes (doc ! k)))"
  by (auto simp: deactivate_all_def classList_remove_def)

lemma classes_activate_node:
  "k < length doc \<Longrightarrow>
   set (classes (activate_node i doc ! k)) =
     (if k = i then insert ''active'' (set (classes (doc ! k))) else set (classes (doc ! k)))"
  by (auto simp: nth_activate_node classList_add_def)

lemma data_tab_deactivate_all:
  "k < length doc \<Longrightarrow> data_tab (deactivate_all c doc ! k) = data_tab (doc ! k)"
  by (simp add: deactivate_all_def)

lemma data_tab_activate_node:
  "k < length doc \<Longrightarrow> data_tab (activate_node i doc ! k) = data_tab (doc ! k)"
  by (simp add: nth_activate_node)

lemma filter_upt_single:
  assumes "i < n" and "\<And>k. k < n \<Longrightarrow> P k \<longleftrightarrow> k = i"
  shows "filter P [0..<n] = [i]"
proof -
  have "filter P [0..<n] = filter (\<lambda>k. k = i) [0..<n]"
    using assms(2) by (intro filter_cong) auto
  also have "\<dots> = [i]"
    using assms(1) by (induction n) auto
  finally show ?thesis .
qed

lemma tab_click_result:
  assumes i: "i < length doc" and btn: "''tab-btn'' \<in> set (classes (doc ! i))"
    and tgt: "getElementById doc (case data_tab (doc ! i) of None \<Rightarrow> ''undefined'' | Some t \<Rightarrow> t) = Some j"
  shows "tab_click i doc =
           (None, activate_node j (activate_node i
              (deactivate_all ''tab-content'' (deactivate_all ''tab-btn'' doc))))"
proof -
  let ?doc3 = "activate_node i (deactivate_all ''tab-content'' (deactivate_all ''tab-btn'' doc))"
  have dt: "data_tab (?doc3 ! i) = data_tab (doc ! i)"
    using i by (simp add: data_tab_activate_node data_tab_deactivate_all length_deactivate_all)
  have "map node_id ?doc3 = map node_id doc"
    by (simp add: ids_activate_node ids_deactivate_all)
  then have "getElementById ?doc3 (case data_tab (doc ! i) of None \<Rightarrow> ''undefined'' | Some t \<Rightarrow> t) = Some j"
    using tgt getElementById_ids [of ?doc3 doc] by simp
  then show ?thesis
    using i btn by (simp add: tab_click_def Let_def dt)
qed

lemma tab_click_classes:
  assumes k: "k < length doc"
  shows "set (classes (activate_node j (activate_node i
              (deactivate_all ''tab-content'' (deactivate_all ''tab-btn'' doc))) ! k)) =
         (if k = i \<or> k = j then insert ''active'' (set (classes (doc ! k)))
          else if ''tab-btn'' \<in> set (classes (doc ! k)) \<or> ''tab-content'' \<in> set (classes (doc ! k))
          then set (classes (doc ! k)) - {''active''}
          else set (classes (doc ! k)))"
  using k
  by (auto simp: classes_activate_node classes_deactivate_all length_activate_node
      length_deactivate_all)

text \<open>
  Claim C6. Let \<open>i\<close> be a tab button and let \<^verbatim>\<open>getElementById\<close> find, for its
  \<^verbatim>\<open>data-tab\<close> attribute, the element \<open>j\<close>, a tab panel; no element is both a tab
  button and a tab panel. Whatever classes the elements had before, the click does not
  throw, and afterwards the active tab buttons are exactly \<open>i\<close> and the active tab panels
  are exactly \<open>j\<close>, the element whose id is the button's \<^verbatim>\<open>data-tab\<close>.
\<close>

theorem tab_click_one_active:
  assumes i: "i < length doc" and btn: "''tab-btn'' \<in> set (classes (doc ! i))"
    and tgt: "getElementById doc (case data_tab (doc ! i) of None \<Rightarrow> ''undefined'' | Some t \<Rightarrow> t) = Some j"
    and pan: "''tab-content'' \<in> set (classes (doc ! j))"
    and disj: "list_all (\<lambda>n. \<not> (''tab-btn'' \<in> set (classes n) \<and> ''tab-content'' \<in> set (classes n))) doc"
  shows "fst (tab_click i doc) = None \<and>
         active_buttons (snd (tab_click i doc)) = [i] \<and>
         active_panels (snd (tab_click i doc)) = [j] \<and>
         node_id (snd (tab_click i doc) ! j) =
           Some (case data_tab (doc ! i) of None \<Rightarrow> ''undefined'' | Some t \<Rightarrow> t)"
proof -
  let ?doc' = "activate_node j (activate_node i
              (deactivate_all ''tab-content'' (deactivate_all ''tab-btn'' doc)))"
  have res: "tab_click i doc = (None, ?doc')"
    using i btn tgt by (rule tab_click_result)
  have j: "j < length doc" and idj: "node_id (doc ! j) = Some (case data_tab (doc ! i) of None \<Rightarrow> ''undefined'' | Some t \<Rightarrow> t)"
    using getElementById_Some [OF tgt] by simp_all
  have len: "length ?doc' = length doc"
    by (simp add: length_activate_node length_deactivate_all)
  have excl: "\<And>k. k < length doc \<Longrightarrow>
      \<not> (''tab-btn'' \<in> set (classes (doc ! k)) \<and> ''tab-content'' \<in> set (classes (doc ! k)))"
    using disj by (simp add: list_all_length)
  have ij: "i \<noteq> j"
    using excl [OF i] btn pan by auto
  have nbj: "''tab-btn'' \<notin> set (classes (doc ! j))"
    using excl [OF j] pan by simp
  have npi: "''tab-content'' \<notin> set (classes (doc ! i))"
    using excl [OF i] btn by simp
  have b: "\<And>k. k < length doc \<Longrightarrow>
      (''tab-btn'' \<in> set (classes (?doc' ! k)) \<and> ''active'' \<in> set (classes (?doc' ! k))) \<longleftrightarrow> k = i"
    using btn nbj by (auto simp: tab_click_classes)
  have p: "\<And>k. k < length doc \<Longrightarrow>
      (''tab-content'' \<in> set (classes (?doc' ! k)) \<and> ''active'' \<in> set (classes (?doc' ! k))) \<longleftrightarrow> k = j"
    using pan npi by (auto simp: tab_click_classes)
  have ab: "active_buttons ?doc' = [i]"
    unfolding active_buttons_def len using i b by (rule filter_upt_single)
  have ap: "active_panels ?doc' = [j]"
    unfolding active_panels_def len using j p by (rule filter_upt_single)
  have "map node_id ?doc' = map node_id doc"
    by (simp add: ids_activate_node ids_deactivate_all)
  then have "map node_id ?doc' ! j = map node_id doc ! j"
    by simp
  then have "node_id (?doc' ! j) = node_id (doc ! j)"
    using j len by simp
  with res ab ap idj show ?thesis
    by simp
qed

theorem tab_click_one_active_witness:
  "1 < length tabs0 \<and> ''tab-btn'' \<in> set (classes (tabs0 ! 1)) \<and>
   getElementById tabs0 ''camera'' = Some 3 \<and> ''tab-content'' \<in> set (classes (tabs0 ! 3)) \<and>
   active_buttons tabs0 = [0] \<and> active_panels tabs0 = [2] \<and>
   fst (tab_click 1 tabs0) = None \<and>
   active_buttons (snd (tab_click 1 tabs0)) = [1] \<and>
   active_panels (snd (tab_click 1 tabs0)) = [3]"
proof -
  have h1: "1 < length tabs0" by (simp add: tabs0_def)
  have h2: "''tab-btn'' \<in> set (classes (tabs0 ! 1))" by (simp add: tabs0_def)
  have h3: "getElementById tabs0 (case data_tab (tabs0 ! 1) of None \<Rightarrow> ''undefined'' | Some t \<Rightarrow> t) = Some 3"
    by (simp add: tabs0_def)
  have h4: "''tab-content'' \<in> set (classes (tabs0 ! 3))" by (simp add: tabs0_def)
  have h5: "list_all (\<lambda>n. \<not> (''tab-btn'' \<in> set (classes n) \<and> ''tab-content'' \<in> set (classes n))) tabs0"
    by (simp add: tabs0_def)
  have h6: "getElementById tabs0 ''camera'' = Some 3" by (simp add: tabs0_def)
  have h7: "active_buttons tabs0 = [0] \<and> active_panels tabs0 = [2]"
    by (simp add: tabs0_def active_buttons_def active_panels_def upt_rec)
  show ?thesis
    using h1 h2 h4 h6 h7 tab_click_one_active [OF h1 h2 h3 h4 h5] by simp
qed

subsection \<open>Fortune spinner\<close>

lemma bit_length_le: "p < 2 ^ b \<Longrightarrow> bit_length p \<le> b"
proof (induction b arbitrary: p)
  case 0
  then show ?case by (simp add: bit_length.simps)
next
  case (Suc b)
  then have "p div 2 < 2 ^ b" by simp
  then have "bit_length (p div 2) \<le> b" by (rule Suc.IH)
  then show ?case by (subst bit_length.simps) simp
qed

lemma round_to_near:
  "round_to k p \<le> p + 2 ^ k div 2 \<and> p \<le> round_to k p + 2 ^ k div 2"
proof (cases k)
  case 0
  then show ?thesis by (simp add: round_to_def)
next
  case (Suc j)
  define u :: nat where "u = 2 ^ j"
  define rest where "rest = p mod 2 ^ k"
  define w where "w = p div 2 ^ k * 2 ^ k"
  have k: "(2::nat) ^ k = 2 * u"
    using Suc by (simp add: u_def)
  have d: "p = w + rest"
    unfolding w_def rest_def by (rule div_mult_mod_eq [symmetric])
  have m: "rest < 2 * u"
    unfolding rest_def k [symmetric] by simp
  have up: "(p div 2 ^ k + 1) * 2 ^ k = w + 2 * u"
    by (simp add: w_def k algebra_simps)
  have r: "round_to k p =
             (if 2 ^ k < 2 * rest \<or> (2 * rest = 2 ^ k \<and> odd (p div 2 ^ k))
              then (p div 2 ^ k + 1) * 2 ^ k else w)"
    by (simp add: round_to_def Let_def rest_def w_def)
  have h: "(2::nat) ^ k div 2 = u"
    by (simp add: k)
  have "round_to k p \<le> p + u \<and> p \<le> round_to k p + u"
    unfolding r up using d m by (auto simp: k)
  then show ?thesis
    by (simp only: h)
qed

lemma round53_near:
  assumes m: "m < 2 ^ 53" and n: "n \<le> 2 ^ b"
  shows "round53 (m * n) \<le> m * n + 2 ^ b div 2 \<and> m * n \<le> round53 (m * n) + 2 ^ b div 2"
proof -
  have "m * n \<le> m * 2 ^ b"
    using n by simp
  also have "\<dots> < 2 ^ 53 * 2 ^ b"
    using m by simp
  finally have "m * n < 2 ^ (53 + b)"
    by (simp add: power_add)
  then have "bit_length (m * n) \<le> 53 + b"
    by (rule bit_length_le)
  then have "bit_length (m * n) - 53 \<le> b"
    by simp
  then have "(2::nat) ^ (bit_length (m * n) - 53) \<le> 2 ^ b"
    by (simp add: power_increasing)
  then have "(2::nat) ^ (bit_length (m * n) - 53) div 2 \<le> 2 ^ b div 2"
    by (rule div_le_mono)
  with round_to_near [of "bit_length (m * n) - 53" "m * n"] show ?thesis
    unfolding round53_def by linarith
qed

lemma floor_times_range:
  assumes r: "is_random d" and n: "n \<le> 2 ^ b" and h: "2 ^ b div 2 < n"
  shows "floor_times d n < n"
proof -
  obtain m e where d: "d = (m, e)" by (cases d)
  have m: "m < 2 ^ 53" "m < 2 ^ e"
    using r by (simp_all add: is_random_def d)
  have "Suc m \<le> 2 ^ e"
    using m by simp
  then have "Suc m * n \<le> 2 ^ e * n"
    by (rule mult_le_mono1)
  then have "m * n + n \<le> n * 2 ^ e"
    by (simp add: mult.commute)
  with round53_near [OF m(1) n] h have "round53 (m * n) < n * 2 ^ e"
    by linarith
  then show ?thesis
    by (simp add: floor_times_def d less_mult_imp_div_less)
qed








text \<open>
  A source that draws each of the \<open>2 ^ 53\<close> numbers \<open>j / 2 ^ 53\<close> with the same probability
  cannot give the five indices the same frequency, since 5 does not divide \<open>2 ^ 53\<close>.
\<close>

lemma indices_not_equally_frequent:
  "\<not> (\<exists>c. \<forall>k < 5. card {j. j < 2 ^ 53 \<and> floor_times (j, 53) 5 = k} = c)"
proof
  assume "\<exists>c. \<forall>k < 5. card {j. j < 2 ^ 53 \<and> floor_times (j, 53) 5 = k} = c"
  then obtain c where c: "\<And>k. k < 5 \<Longrightarrow> card {j. j < 2 ^ 53 \<and> floor_times (j, 53) 5 = k} = c"
    by blast
  let ?S = "{..<(2::nat) ^ 53}"
  let ?f = "\<lambda>j. floor_times (j, 53) 5"
  have r: "\<And>j. j \<in> ?S \<Longrightarrow> ?f j < 5"
  proof -
    fix j :: nat
    assume "j \<in> ?S"
    then have "is_random (j, 53)"
      by (simp add: is_random_def)
    then show "?f j < 5"
      by (rule floor_times_range [where b = 3]) simp_all
  qed
  have "(\<Sum>k\<in>{..<5}. \<Sum>j\<in>{j \<in> ?S. ?f j = k}. (1::nat)) = (\<Sum>j\<in>?S. 1)"
    using r by (intro sum.group) auto
  moreover have "\<And>k. {j \<in> ?S. ?f j = k} = {j. j < 2 ^ 53 \<and> ?f j = k}"
    by auto
  ultimately have "(\<Sum>k\<in>{..<5::nat}. c) = card ?S"
    using c by simp
  then have "5 * c = (2::nat) ^ 53"
    by simp
  then have "(2::nat) ^ 53 mod 5 = 0"
    by (metis mod_mult_self1_is_0)
  then show False
    by simp
qed

subsection \<open>Chat widget\<close>

lemma trim_empty_iff: "trim v = [] \<longleftrightarrow> list_all is_whitespace v"
proof
  assume "list_all is_whitespace v"
  then have "dropWhile is_whitespace v = []"
    by (simp add: list_all_iff)
  then show "trim v = []"
    unfolding trim_def by (simp only: rev.simps dropWhile.simps)
next
  assume "trim v = []"
  then have all: "\<forall>x \<in> set (dropWhile is_whitespace v). is_whitespace x"
    by (simp add: trim_def)
  have "dropWhile is_whitespace v = []"
  proof (rule ccontr)
    assume ne: "dropWhile is_whitespace v \<noteq> []"
    then have "\<not> is_whitespace (hd (dropWhile is_whitespace v))"
      by (rule hd_dropWhile)
    moreover have "hd (dropWhile is_whitespace v) \<in> set (dropWhile is_whitespace v)"
      using ne by simp
    ultimately show False
      using all by blast
  qed
  then show "list_all is_whitespace v"
    by (simp add: list_all_iff)
qed

lemma trim_whitespace_only: "list_all is_whitespace v \<Longrightarrow> trim v = []"
  by (simp add: trim_empty_iff)

lemma trim_Nil: "trim [] = []"
  by (simp add: trim_def)

lemma trim_hello: "trim (js ''hello'') = js ''hello''"
  by (simp add: trim_def js_def is_whitespace_def)

text \<open>
  Claim C4. When the text input holds only white space (or nothing) and the call has no
  argument, or when the call is given the empty transcript, \<^verbatim>\<open>sendMessage\<close> returns at
  once: the promise is fulfilled and the whole state (transcript, input, effects, requests)
  is unchanged, whatever the network would have answered.
\<close>

theorem send_empty_is_noop:
  assumes "(text = None \<and> inputField st = Some v \<and> list_all is_whitespace v) \<or> text = Some []"
  shows "sendMessage_begin text st = (Inl Fulfilled, st) \<and>
         sendMessage text outcome st = (Fulfilled, st) \<and>
         start_send text st = st"
proof -
  have b: "sendMessage_begin text st = (Inl Fulfilled, st)"
    using assms by (auto simp: sendMessage_begin_def trim_whitespace_only)
  then show ?thesis
    by (simp add: sendMessage_def start_send_def drop_promise_def)
qed

theorem send_empty_is_noop_witness:
  "list_all is_whitespace [0x20, 0x09, 0xA0] \<and>
   sendMessage None (BodyJSON (Some (js ''hi!''))) (chat0\<lparr>inputField := Some [0x20, 0x09, 0xA0]\<rparr>) =
     (Fulfilled, chat0\<lparr>inputField := Some [0x20, 0x09, 0xA0]\<rparr>) \<and>
   start_send None (chat0\<lparr>inputField := Some [0x20, 0x09, 0xA0]\<rparr>) =
     chat0\<lparr>inputField := Some [0x20, 0x09, 0xA0]\<rparr> \<and>
   start_send (Some []) chat0 = chat0"
proof -
  have ws: "list_all is_whitespace [0x20, 0x09, 0xA0]"
    by (simp add: is_whitespace_def)
  have i: "inputField (chat0\<lparr>inputField := Some [0x20, 0x09, 0xA0]\<rparr>) = Some [0x20, 0x09, 0xA0]"
    by simp
  have a: "(None = (None::jsstring option) \<and>
            inputField (chat0\<lparr>inputField := Some [0x20, 0x09, 0xA0]\<rparr>) = Some [0x20, 0x09, 0xA0] \<and>
            list_all is_whitespace [0x20, 0x09, 0xA0]) \<or> None = Some ([]::jsstring)"
    using ws i by blast
  have b: "(Some ([]::jsstring) = None \<and> inputField chat0 = Some [] \<and> list_all is_whitespace [])
           \<or> Some ([]::jsstring) = Some []"
    by simp
  show ?thesis
    using ws send_empty_is_noop [OF a, of "BodyJSON (Some (js ''hi!''))"]
      send_empty_is_noop [OF b, of FetchRejects]
    by blast
qed

lemma sendMessage_begin_sent:
  assumes mc: "msgContainer st = Some kids"
    and src: "(text = None \<and> inputField st = Some v \<and> prompt = trim v) \<or> text = Some prompt"
    and ne: "prompt \<noteq> []"
  shows "sendMessage_begin text st =
           (Inr (Suc (next_id st)),
            st\<lparr>msgContainer := Some (kids @ [user_el (next_id st) prompt, typing_el (Suc (next_id st))]),
               inputField := (if text = None then Some [] else inputField st),
               typingEl := Some (Suc (next_id st)),
               next_id := Suc (Suc (next_id st)),
               pending := pending st @ [Suc (next_id st)],
               trace := trace st @ [AppendMessage ''user'' prompt] @
                          (if text = None then [ClearInput] else []) @
                          [AppendTyping, Fetch (berrybot_request prompt)]\<rparr>)"
  using src
proof
  assume a: "text = None \<and> inputField st = Some v \<and> prompt = trim v"
  then show ?thesis
    using mc ne
    by (simp add: sendMessage_begin_def appendMessage_def appendTypingIndicator_def Let_def
        user_el_def typing_el_def)
next
  assume a: "text = Some prompt"
  then show ?thesis
    using mc ne
    by (simp add: sendMessage_begin_def appendMessage_def appendTypingIndicator_def Let_def
        user_el_def typing_el_def)
qed

lemma filter_below:
  "list_all (\<lambda>e. el_id e < n) kids \<Longrightarrow> filter (\<lambda>e. el_id e \<noteq> Suc n) kids = kids"
  by (induction kids) auto

lemma removeAll_below:
  "list_all (\<lambda>i. i < n) ps \<Longrightarrow> removeAll (Suc n) ps = ps"
  by (induction ps) auto

lemma chat_wf_parts:
  assumes "chat_wf st" and "msgContainer st = Some kids"
  shows "list_all (\<lambda>e. el_id e < next_id st) kids" and "list_all (\<lambda>i. i < next_id st) (pending st)"
  using assms by (simp_all add: chat_wf_def transcript_ids_def list_all_iff)

text \<open>
  Well-formedness holds when the page loads and every event keeps it, so it holds in every
  state the widget can reach.
\<close>

lemma chat_wf_chat0: "chat_wf chat0"
  by (simp add: chat_wf_def transcript_ids_def chat0_def)

lemma chat_wf_drop: "chat_wf (drop_promise (r, s)) = chat_wf s"
  by (cases r) (simp_all add: drop_promise_def chat_wf_def transcript_ids_def)

lemma chat_wf_appendMessage: "chat_wf s \<Longrightarrow> chat_wf (snd (appendMessage who arg s))"
  by (cases "msgContainer s")
     (auto simp: appendMessage_def Let_def chat_wf_def transcript_ids_def list_all_iff
        intro: less_SucI)

lemma chat_wf_appendTypingIndicator: "chat_wf s \<Longrightarrow> chat_wf (snd (appendTypingIndicator s))"
  by (cases "msgContainer s")
     (auto simp: appendTypingIndicator_def Let_def chat_wf_def transcript_ids_def list_all_iff
        intro: less_SucI)

lemma chat_wf_removeTypingIndicator: "chat_wf s \<Longrightarrow> chat_wf (removeTypingIndicator s)"
  by (cases "typingEl s"; cases "msgContainer s")
     (auto simp: removeTypingIndicator_def chat_wf_def transcript_ids_def list_all_iff)

lemma chat_wf_sendMessage_begin: "chat_wf s \<Longrightarrow> chat_wf (snd (sendMessage_begin arg s))"
  by (cases "msgContainer s"; cases "inputField s"; cases "arg")
     (auto simp: sendMessage_begin_def appendMessage_def appendTypingIndicator_def Let_def
        chat_wf_def transcript_ids_def list_all_iff intro: less_SucI)

lemma chat_wf_start_send: "chat_wf s \<Longrightarrow> chat_wf (start_send arg s)"
  using chat_wf_sendMessage_begin [of s arg]
  by (cases "sendMessage_begin arg s") (auto simp: start_send_def chat_wf_drop split: sum.splits)

lemma chat_wf_pending_removeAll: "chat_wf s \<Longrightarrow> chat_wf (s\<lparr>pending := removeAll t (pending s)\<rparr>)"
  by (auto simp: chat_wf_def transcript_ids_def list_all_iff)

lemma chat_wf_sendMessage_resume: "chat_wf s \<Longrightarrow> chat_wf (snd (sendMessage_resume outcome s))"
proof (cases outcome)
  case (BodyJSON reply)
  assume "chat_wf s"
  then have "chat_wf (removeTypingIndicator s)"
    by (rule chat_wf_removeTypingIndicator)
  then have "chat_wf (snd (appendMessage ''bot'' (case reply of None \<Rightarrow> js ''undefined'' | Some r \<Rightarrow> r)
                (removeTypingIndicator s)))"
    by (rule chat_wf_appendMessage)
  then show ?thesis
    by (auto simp: BodyJSON sendMessage_resume_def split: prod.splits option.splits)
qed (simp_all add: sendMessage_resume_def)

lemma chat_wf_response_arrives: "chat_wf s \<Longrightarrow> chat_wf (response_arrives t outcome s)"
proof (cases "t \<in> set (pending s)")
  case True
  assume "chat_wf s"
  then have "chat_wf (s\<lparr>pending := removeAll t (pending s)\<rparr>)"
    by (rule chat_wf_pending_removeAll)
  then have "chat_wf (snd (sendMessage_resume outcome (s\<lparr>pending := removeAll t (pending s)\<rparr>)))"
    by (rule chat_wf_sendMessage_resume)
  then show ?thesis
    using True
    by (cases "sendMessage_resume outcome (s\<lparr>pending := removeAll t (pending s)\<rparr>)")
       (simp add: response_arrives_def chat_wf_drop)
qed (simp add: response_arrives_def)

lemma chat_wf_step: "chat_wf s \<Longrightarrow> chat_wf (chat_step e s)"
proof (cases e)
  case ToggleClick
  assume "chat_wf s"
  then show ?thesis
    by (auto simp: ToggleClick toggle_click_def chat_wf_def transcript_ids_def split: option.splits)
next
  case (VoiceClick supported)
  assume "chat_wf s"
  then show ?thesis
    by (auto simp: VoiceClick voiceBtn_click_def Let_def chat_wf_def transcript_ids_def
        split: option.splits)
qed (simp_all add: sendBtn_click_def inputField_keypress_def recognition_result_def
      chat_wf_start_send chat_wf_response_arrives)

lemma chat_wf_run: "chat_wf s \<Longrightarrow> chat_wf (chat_run es s)"
  unfolding chat_run_def by (induction es arbitrary: s) (simp_all add: chat_wf_step)

lemma chat_wf_reachable: "chat_wf (chat_run es chat0)"
  using chat_wf_chat0 by (rule chat_wf_run)

lemma quiet_step:
  "quiet e \<Longrightarrow> \<exists>p a r. chat_step e s = s\<lparr>panel := p, alerts := a, recognitions := r\<rparr>"
proof (cases e)
  case ToggleClick
  have "chat_step e s = s\<lparr>panel := panel (chat_step e s), alerts := alerts s, recognitions := recognitions s\<rparr>"
    by (simp add: ToggleClick toggle_click_def split: option.splits)
  then show ?thesis by blast
next
  case (VoiceClick supported)
  have "chat_step e s = s\<lparr>panel := panel (chat_step e s), alerts := alerts (chat_step e s),
                          recognitions := recognitions (chat_step e s)\<rparr>"
    by (simp add: VoiceClick voiceBtn_click_def Let_def split: option.splits)
  then show ?thesis by blast
next
  case (KeyPress key)
  assume "quiet e"
  then have "chat_step e s = s\<lparr>panel := panel s, alerts := alerts s, recognitions := recognitions s\<rparr>"
    by (simp add: KeyPress quiet_def inputField_keypress_def)
  then show ?thesis by blast
qed (simp_all add: quiet_def)

lemma quiet_run:
  "list_all quiet es \<Longrightarrow> \<exists>p a r. chat_run es s = s\<lparr>panel := p, alerts := a, recognitions := r\<rparr>"
proof (induction es arbitrary: s)
  case Nil
  have "chat_run [] s = s\<lparr>panel := panel s, alerts := alerts s, recognitions := recognitions s\<rparr>"
    by (simp add: chat_run_def)
  then show ?case by blast
next
  case (Cons e es)
  then obtain p a r where e: "chat_step e s = s\<lparr>panel := p, alerts := a, recognitions := r\<rparr>"
    using quiet_step [of e s] by auto
  from Cons obtain p' a' r' where
    "chat_run es (chat_step e s) = (chat_step e s)\<lparr>panel := p', alerts := a', recognitions := r'\<rparr>"
    by fastforce
  then have "chat_run (e # es) s = s\<lparr>panel := p', alerts := a', recognitions := r'\<rparr>"
    by (simp add: chat_run_def e)
  then show ?case by blast
qed

lemma chat_run_append: "chat_run (es @ fs) s = chat_run fs (chat_run es s)"
  by (simp add: chat_run_def)

lemma response_arrives_frame:
  "response_arrives t outcome (s\<lparr>panel := p, alerts := a, recognitions := r\<rparr>) =
     (response_arrives t outcome s)\<lparr>panel := p, alerts := a, recognitions := r\<rparr>"
  by (cases outcome; cases "typingEl s"; cases "msgContainer s")
     (auto simp: response_arrives_def sendMessage_resume_def removeTypingIndicator_def
        appendMessage_def drop_promise_def Let_def split: option.splits)

lemma sendMessage_resume_reply:
  assumes "msgContainer s = Some ks"
  shows "sendMessage_resume (BodyJSON (Some reply)) s =
           (Fulfilled,
            s\<lparr>msgContainer :=
                 Some (filter (\<lambda>e. Some (el_id e) \<noteq> typingEl s) ks @ [bot_el (next_id s) reply]),
               next_id := Suc (next_id s),
               trace := trace s @ (if typingEl s = None then [] else [RemoveTyping]) @
                          [AppendMessage ''bot'' reply]\<rparr>)"
  using assms
  by (cases "typingEl s")
     (simp_all add: sendMessage_resume_def removeTypingIndicator_def appendMessage_def Let_def
        bot_el_def)

lemma send_then_reply:
  assumes wf: "chat_wf st" and mc: "msgContainer st = Some kids"
    and src: "(text = None \<and> inputField st = Some v \<and> prompt = trim v) \<or> text = Some prompt"
    and p: "prompt \<noteq> []"
  shows "response_arrives (Suc (next_id st)) (BodyJSON (Some reply)) (start_send text st) =
            st\<lparr>msgContainer :=
                 Some (kids @ [user_el (next_id st) prompt, bot_el (Suc (Suc (next_id st))) reply]),
               inputField := (if text = None then Some [] else inputField st),
               typingEl := Some (Suc (next_id st)),
               next_id := Suc (Suc (Suc (next_id st))),
               trace := trace st @ [AppendMessage ''user'' prompt] @
                          (if text = None then [ClearInput] else []) @
                          [AppendTyping, Fetch (berrybot_request prompt), RemoveTyping,
                           AppendMessage ''bot'' reply]\<rparr>"
proof -
  note b = sendMessage_begin_sent [OF mc src p]
  have k: "filter (\<lambda>e. el_id e \<noteq> Suc (next_id st)) kids = kids"
    using chat_wf_parts(1) [OF wf mc] by (rule filter_below)
  have q: "removeAll (Suc (next_id st)) (pending st) = pending st"
    using chat_wf_parts(2) [OF wf mc] by (rule removeAll_below)
  show ?thesis
    by (simp add: start_send_def b response_arrives_def sendMessage_resume_def
        removeTypingIndicator_def appendMessage_def Let_def k q drop_promise_def
        user_el_def typing_el_def bot_el_def)
qed

text \<open>
  Claim C3, as stated, fails when a second send starts before the first is answered. Below,
  the send of \<^verbatim>\<open>a\<close> (placeholder 1) is followed by the send of \<^verbatim>\<open>b\<close> (placeholder 3);
  the answer to the first removes placeholder 3, to which \<^verbatim>\<open>typingEl\<close> then refers, and
  appends the bot message: the first send is complete and its own typing indicator is still
  in the transcript. It fails, too, after an earlier send has failed: the placeholder of
  that send (identity 1 in the second run) is still there when the next send has been
  answered.
\<close>

theorem own_placeholder_left_behind:
  \<open>msgContainer
     (chat_run [SendClick, VoiceResult [js ''b''], Response 1 (BodyJSON (Some (js ''ok'')))]
        (chat0\<lparr>inputField := Some (js ''a'')\<rparr>)) =
   Some [\<lparr>el_id = 0, className = ''message user'',
           innerHTML = js ''<div class="bubble">'' @ js ''a'' @ js ''</div>''\<rparr>,
         \<lparr>el_id = 1, className = ''message bot'',
           innerHTML = js ''<div class="bubble">'' @ [0xD83C, 0xDF53] @
                       js '' BerryBot is typing'' @ [0x2026] @ js ''</div>''\<rparr>,
         \<lparr>el_id = 2, className = ''message user'',
           innerHTML = js ''<div class="bubble">'' @ js ''b'' @ js ''</div>''\<rparr>,
         \<lparr>el_id = 4, className = ''message bot'',
           innerHTML = js ''<div class="bubble">'' @ js ''ok'' @ js ''</div>''\<rparr>] \<and>
   transcript_ids
     (chat_run [SendClick, Response 1 FetchRejects, VoiceResult [js ''b''],
                Response 3 (BodyJSON (Some (js ''ok'')))]
        (chat0\<lparr>inputField := Some (js ''a'')\<rparr>)) = [0, 1, 2, 4]\<close>
  by (simp add: chat_run_def sendBtn_click_def recognition_result_def start_send_def
      response_arrives_def sendMessage_begin_def sendMessage_resume_def appendMessage_def
      appendTypingIndicator_def removeTypingIndicator_def drop_promise_def Let_def
      chat0_def trim_def js_def is_whitespace_def bubble_def typing_html_def transcript_ids_def)

text \<open>
  Claim C3, amended. Let the prompt be the trimmed value of the text input (call without
  argument) or the given voice transcript, non-empty after trimming, and let the transcript
  element exist. Up to the request, \<^verbatim>\<open>sendMessage\<close> appends the user message with the
  prompt in its bubble, clears the input exactly when the prompt came from the text input,
  appends the typing placeholder and issues one POST to \<^verbatim>\<open>/api/berrybot\<close> with the JSON
  body \<^verbatim>\<open>{prompt}\<close>, in this order. In whatever state the answer \<^verbatim>\<open>{"reply": reply}\<close>
  arrives, the rest removes the element \<^verbatim>\<open>typingEl\<close> refers to at that moment and appends
  the bot message with the reply in its bubble. When the state is well-formed and only
  events that start no send and bring no answer lie between the call and its answer, the
  placeholder removed is the call's own: the transcript is the previous one followed by the
  user message and the bot message, so it holds no typing indicator unless it held one
  before.
\<close>

theorem send_success_sequence:
  assumes mc: "msgContainer st = Some kids"
    and src: "(text = None \<and> inputField st = Some v \<and> prompt = trim v) \<or> text = Some prompt"
    and ne: "trim prompt \<noteq> []"
  shows \<open>sendMessage_begin text st =
           (Inr (Suc (next_id st)),
            st\<lparr>msgContainer :=
                 Some (kids @
                   [\<lparr>el_id = next_id st, className = ''message user'',
                     innerHTML = js ''<div class="bubble">'' @ prompt @ js ''</div>''\<rparr>,
                    \<lparr>el_id = Suc (next_id st), className = ''message bot'',
                     innerHTML = js ''<div class="bubble">'' @ [0xD83C, 0xDF53] @
                                 js '' BerryBot is typing'' @ [0x2026] @ js ''</div>''\<rparr>]),
               inputField := (if text = None then Some [] else inputField st),
               typingEl := Some (Suc (next_id st)),
               next_id := Suc (Suc (next_id st)),
               pending := pending st @ [Suc (next_id st)],
               trace := trace st @ [AppendMessage ''user'' prompt] @
                          (if text = None then [ClearInput] else []) @
                          [AppendTyping,
                           Fetch \<lparr>req_url = ''/api/berrybot'', req_method = ''POST'',
                                  req_headers = [(''Content-Type'', ''application/json'')],
                                  req_body = [(''prompt'', prompt)]\<rparr>]\<rparr>) \<and>
         (\<forall>(s::chat) ks. msgContainer s = Some ks \<longrightarrow>
            sendMessage_resume (BodyJSON (Some reply)) s =
              (Fulfilled,
               s\<lparr>msgContainer :=
                    Some (filter (\<lambda>e. Some (el_id e) \<noteq> typingEl s) ks @
                      [\<lparr>el_id = next_id s, className = ''message bot'',
                        innerHTML = js ''<div class="bubble">'' @ reply @ js ''</div>''\<rparr>]),
                  next_id := Suc (next_id s),
                  trace := trace s @ (if typingEl s = None then [] else [RemoveTyping]) @
                             [AppendMessage ''bot'' reply]\<rparr>)) \<and>
         (chat_wf st \<longrightarrow>
            (\<forall>es. list_all quiet es \<longrightarrow>
               (\<exists>p a r.
                  chat_run (es @ [Response (Suc (next_id st)) (BodyJSON (Some reply))])
                    (start_send text st) =
                  st\<lparr>msgContainer :=
                       Some (kids @
                         [\<lparr>el_id = next_id st, className = ''message user'',
                           innerHTML = js ''<div class="bubble">'' @ prompt @ js ''</div>''\<rparr>,
                          \<lparr>el_id = Suc (Suc (next_id st)), className = ''message bot'',
                           innerHTML = js ''<div class="bubble">'' @ reply @ js ''</div>''\<rparr>]),
                     inputField := (if text = None then Some [] else inputField st),
                     typingEl := Some (Suc (next_id st)),
                     next_id := Suc (Suc (Suc (next_id st))),
                     trace := trace st @ [AppendMessage ''user'' prompt] @
                                (if text = None then [ClearInput] else []) @
                                [AppendTyping,
                                 Fetch \<lparr>req_url = ''/api/berrybot'', req_method = ''POST'',
                                        req_headers = [(''Content-Type'', ''application/json'')],
                                        req_body = [(''prompt'', prompt)]\<rparr>,
                                 RemoveTyping, AppendMessage ''bot'' reply],
                     panel := p, alerts := a, recognitions := r\<rparr>)))\<close>
proof (intro conjI allI impI)
  have p: "prompt \<noteq> []"
    using ne trim_Nil by auto
  show \<open>sendMessage_begin text st =
           (Inr (Suc (next_id st)),
            st\<lparr>msgContainer :=
                 Some (kids @
                   [\<lparr>el_id = next_id st, className = ''message user'',
                     innerHTML = js ''<div class="bubble">'' @ prompt @ js ''</div>''\<rparr>,
                    \<lparr>el_id = Suc (next_id st), className = ''message bot'',
                     innerHTML = js ''<div class="bubble">'' @ [0xD83C, 0xDF53] @
                                 js '' BerryBot is typing'' @ [0x2026] @ js ''</div>''\<rparr>]),
               inputField := (if text = None then Some [] else inputField st),
               typingEl := Some (Suc (next_id st)),
               next_id := Suc (Suc (next_id st)),
               pending := pending st @ [Suc (next_id st)],
               trace := trace st @ [AppendMessage ''user'' prompt] @
                          (if text = None then [ClearInput] else []) @
                          [AppendTyping,
                           Fetch \<lparr>req_url = ''/api/berrybot'', req_method = ''POST'',
                                  req_headers = [(''Content-Type'', ''application/json'')],
                                  req_body = [(''prompt'', prompt)]\<rparr>]\<rparr>)\<close>
    using sendMessage_begin_sent [OF mc src p]
    by (simp add: user_el_def typing_el_def bubble_def typing_html_def berrybot_request_def)
next
  fix s :: chat and ks
  assume "msgContainer s = Some ks"
  then show \<open>sendMessage_resume (BodyJSON (Some reply)) s =
              (Fulfilled,
               s\<lparr>msgContainer :=
                    Some (filter (\<lambda>e. Some (el_id e) \<noteq> typingEl s) ks @
                      [\<lparr>el_id = next_id s, className = ''message bot'',
                        innerHTML = js ''<div class="bubble">'' @ reply @ js ''</div>''\<rparr>]),
                  next_id := Suc (next_id s),
                  trace := trace s @ (if typingEl s = None then [] else [RemoveTyping]) @
                             [AppendMessage ''bot'' reply]\<rparr>)\<close>
    using sendMessage_resume_reply [of s ks reply]
    by (simp add: bot_el_def bubble_def)
next
  fix es
  assume wf: "chat_wf st" and qs: "list_all quiet es"
  have p: "prompt \<noteq> []"
    using ne trim_Nil by auto
  obtain p' a' r' where run:
    "chat_run es (start_send text st) = (start_send text st)\<lparr>panel := p', alerts := a', recognitions := r'\<rparr>"
    using quiet_run [OF qs] by blast
  have "chat_run (es @ [Response (Suc (next_id st)) (BodyJSON (Some reply))]) (start_send text st) =
        (response_arrives (Suc (next_id st)) (BodyJSON (Some reply)) (start_send text st))
          \<lparr>panel := p', alerts := a', recognitions := r'\<rparr>"
    by (simp add: chat_run_append run) (simp add: chat_run_def response_arrives_frame)
  then have \<open>chat_run (es @ [Response (Suc (next_id st)) (BodyJSON (Some reply))])
                    (start_send text st) =
                  st\<lparr>msgContainer :=
                       Some (kids @
                         [\<lparr>el_id = next_id st, className = ''message user'',
                           innerHTML = js ''<div class="bubble">'' @ prompt @ js ''</div>''\<rparr>,
                          \<lparr>el_id = Suc (Suc (next_id st)), className = ''message bot'',
                           innerHTML = js ''<div class="bubble">'' @ reply @ js ''</div>''\<rparr>]),
                     inputField := (if text = None then Some [] else inputField st),
                     typingEl := Some (Suc (next_id st)),
                     next_id := Suc (Suc (Suc (next_id st))),
                     trace := trace st @ [AppendMessage ''user'' prompt] @
                                (if text = None then [ClearInput] else []) @
                                [AppendTyping,
                                 Fetch \<lparr>req_url = ''/api/berrybot'', req_method = ''POST'',
                                        req_headers = [(''Content-Type'', ''application/json'')],
                                        req_body = [(''prompt'', prompt)]\<rparr>,
                                 RemoveTyping, AppendMessage ''bot'' reply],
                     panel := p', alerts := a', recognitions := r'\<rparr>\<close>
    by (simp add: send_then_reply [OF wf mc src p] user_el_def bot_el_def bubble_def
        berrybot_request_def)
  then show \<open>\<exists>p a r.
                  chat_run (es @ [Response (Suc (next_id st)) (BodyJSON (Some reply))])
                    (start_send text st) =
                  st\<lparr>msgContainer :=
                       Some (kids @
                         [\<lparr>el_id = next_id st, className = ''message user'',
                           innerHTML = js ''<div class="bubble">'' @ prompt @ js ''</div>''\<rparr>,
                          \<lparr>el_id = Suc (Suc (next_id st)), className = ''message bot'',
                           innerHTML = js ''<div class="bubble">'' @ reply @ js ''</div>''\<rparr>]),
                     inputField := (if text = None then Some [] else inputField st),
                     typingEl := Some (Suc (next_id st)),
                     next_id := Suc (Suc (Suc (next_id st))),
                     trace := trace st @ [AppendMessage ''user'' prompt] @
                                (if text = None then [ClearInput] else []) @
                                [AppendTyping,
                                 Fetch \<lparr>req_url = ''/api/berrybot'', req_method = ''POST'',
                                        req_headers = [(''Content-Type'', ''application/json'')],
                                        req_body = [(''prompt'', prompt)]\<rparr>,
                                 RemoveTyping, AppendMessage ''bot'' reply],
                     panel := p, alerts := a, recognitions := r\<rparr>\<close>
    by blast
qed

theorem send_success_sequence_witness:
  \<open>msgContainer (chat0\<lparr>inputField := Some (js ''hello'')\<rparr>) = Some [] \<and>
   trim (js ''hello'') \<noteq> [] \<and> chat_wf (chat0\<lparr>inputField := Some (js ''hello'')\<rparr>) \<and>
   list_all quiet [ToggleClick] \<and>
   msgContainer (chat_run [ToggleClick, Response 1 (BodyJSON (Some (js ''hi!'')))]
                   (start_send None (chat0\<lparr>inputField := Some (js ''hello'')\<rparr>))) =
     Some [\<lparr>el_id = 0, className = ''message user'',
             innerHTML = js ''<div class="bubble">'' @ js ''hello'' @ js ''</div>''\<rparr>,
           \<lparr>el_id = 2, className = ''message bot'',
             innerHTML = js ''<div class="bubble">'' @ js ''hi!'' @ js ''</div>''\<rparr>] \<and>
   trace (chat_run [ToggleClick, Response 1 (BodyJSON (Some (js ''hi!'')))]
                   (start_send None (chat0\<lparr>inputField := Some (js ''hello'')\<rparr>))) =
     [AppendMessage ''user'' (js ''hello''), ClearInput, AppendTyping,
      Fetch \<lparr>req_url = ''/api/berrybot'', req_method = ''POST'',
             req_headers = [(''Content-Type'', ''application/json'')],
             req_body = [(''prompt'', js ''hello'')]\<rparr>,
      RemoveTyping, AppendMessage ''bot'' (js ''hi!'')]\<close>
proof -
  let ?st = "chat0\<lparr>inputField := Some (js ''hello'')\<rparr>"
  have wf: "chat_wf ?st"
    by (simp add: chat_wf_def transcript_ids_def chat0_def)
  have mc: "msgContainer ?st = Some []"
    by (simp add: chat0_def)
  have src: "(None = (None::jsstring option) \<and> inputField ?st = Some (js ''hello'') \<and>
              js ''hello'' = trim (js ''hello'')) \<or> None = Some (js ''hello'')"
    by (simp add: trim_hello)
  have ne: "trim (js ''hello'') \<noteq> []"
    by (simp only: trim_hello) (simp add: js_def)
  have q: "list_all quiet [ToggleClick]"
    by (simp add: quiet_def)
  have n0: "next_id ?st = 0" and t0: "trace ?st = []"
    by (simp_all add: chat0_def)
  note T = send_success_sequence [OF mc src ne, of "js ''hi!''"]
  from T wf q obtain p a r where F:
    \<open>chat_run ([ToggleClick] @ [Response (Suc (next_id ?st)) (BodyJSON (Some (js ''hi!'')))])
         (start_send None ?st) =
       ?st\<lparr>msgContainer :=
             Some ([] @
               [\<lparr>el_id = next_id ?st, className = ''message user'',
                 innerHTML = js ''<div class="bubble">'' @ js ''hello'' @ js ''</div>''\<rparr>,
                \<lparr>el_id = Suc (Suc (next_id ?st)), className = ''message bot'',
                 innerHTML = js ''<div class="bubble">'' @ js ''hi!'' @ js ''</div>''\<rparr>]),
           inputField := (if None = (None::jsstring option) then Some [] else inputField ?st),
           typingEl := Some (Suc (next_id ?st)),
           next_id := Suc (Suc (Suc (next_id ?st))),
           trace := trace ?st @ [AppendMessage ''user'' (js ''hello'')] @
                      (if None = (None::jsstring option) then [ClearInput] else []) @
                      [AppendTyping,
                       Fetch \<lparr>req_url = ''/api/berrybot'', req_method = ''POST'',
                              req_headers = [(''Content-Type'', ''application/json'')],
                              req_body = [(''prompt'', js ''hello'')]\<rparr>,
                       RemoveTyping, AppendMessage ''bot'' (js ''hi!'')],
           panel := p, alerts := a, recognitions := r\<rparr>\<close>
    by blast
  have e: "[ToggleClick, Response 1 (BodyJSON (Some (js ''hi!'')))] =
           [ToggleClick] @ [Response (Suc (next_id ?st)) (BodyJSON (Some (js ''hi!'')))]"
    by (simp add: n0)
  show ?thesis
    using mc ne wf q unfolding e F by (simp add: n0 t0 numeral_2_eq_2)
qed

lemma stuck_inv_container:
  "stuck_inv t s \<Longrightarrow> \<exists>kids. msgContainer s = Some kids \<and> t \<in> el_id ` set kids"
  by (cases "msgContainer s") (auto simp: stuck_inv_def transcript_ids_def)

lemma stuck_inv_unhandled:
  "stuck_inv t (s\<lparr>unhandled := u\<rparr>) = stuck_inv t s"
  by (simp add: stuck_inv_def transcript_ids_def)

lemma stuck_inv_drop:
  "stuck_inv t (drop_promise (r, s)) = stuck_inv t s"
  by (cases r) (simp_all add: drop_promise_def stuck_inv_unhandled)

lemma stuck_inv_begin_sent:
  assumes inv: "stuck_inv t s" and mc: "msgContainer s = Some kids"
    and src: "(text = None \<and> inputField s = Some v \<and> prompt = trim v) \<or> text = Some prompt"
    and ne: "prompt \<noteq> []"
  shows "stuck_inv t (start_send text s)"
proof -
  note b = sendMessage_begin_sent [OF mc src ne]
  have "t \<in> el_id ` set kids" and "t < next_id s"
    using inv mc by (auto simp: stuck_inv_def transcript_ids_def)
  then show ?thesis
    by (auto simp: start_send_def b stuck_inv_def transcript_ids_def)
qed

lemma stuck_inv_start:
  assumes inv: "stuck_inv t s"
  shows "stuck_inv t (start_send text s)"
proof -
  obtain kids where mc: "msgContainer s = Some kids"
    using stuck_inv_container [OF inv] by blast
  show ?thesis
  proof (cases "text")
    case None
    show ?thesis
    proof (cases "inputField s")
      case n: None
      have "sendMessage_begin text s = (Inl (Rejected TypeError), s)"
        by (simp add: sendMessage_begin_def None n)
      then show ?thesis
        using inv by (simp add: start_send_def stuck_inv_drop)
    next
      case (Some v)
      show ?thesis
      proof (cases "trim v = []")
        case True
        then have "sendMessage_begin text s = (Inl Fulfilled, s)"
          by (simp add: sendMessage_begin_def None Some)
        then show ?thesis
          using inv by (simp add: start_send_def stuck_inv_drop)
      next
        case False
        show ?thesis
          using inv mc _ False
          by (rule stuck_inv_begin_sent [where v = v]) (simp add: None Some)
      qed
    qed
  next
    case (Some p)
    show ?thesis
    proof (cases "p = []")
      case True
      then have "sendMessage_begin text s = (Inl Fulfilled, s)"
        by (simp add: sendMessage_begin_def Some)
      then show ?thesis
        using inv by (simp add: start_send_def stuck_inv_drop)
    next
      case False
      show ?thesis
        using inv mc _ False
        by (rule stuck_inv_begin_sent [where v = "[]"]) (simp add: Some)
    qed
  qed
qed

lemma stuck_inv_response:
  assumes inv: "stuck_inv t s" and ns: "\<not> succeeds_for t (Response token outcome)"
  shows "stuck_inv t (response_arrives token outcome s)"
proof (cases "token \<in> set (pending s)")
  case False
  then show ?thesis
    using inv by (simp add: response_arrives_def)
next
  case True
  let ?s' = "s\<lparr>pending := removeAll token (pending s)\<rparr>"
  have inv': "stuck_inv t ?s'"
    using inv by (auto simp: stuck_inv_def transcript_ids_def)
  show ?thesis
  proof (cases outcome)
    case FetchRejects
    then show ?thesis
      using True inv' by (simp add: response_arrives_def sendMessage_resume_def stuck_inv_drop)
  next
    case BodyNotJSON
    then show ?thesis
      using True inv' by (simp add: response_arrives_def sendMessage_resume_def stuck_inv_drop)
  next
    case BodyNull
    then show ?thesis
      using True inv' by (simp add: response_arrives_def sendMessage_resume_def stuck_inv_drop)
  next
    case (BodyJSON reply)
    with ns have "token \<noteq> t"
      by (simp add: succeeds_for_def)
    with True inv have ty: "typingEl s \<noteq> Some t"
      by (auto simp: stuck_inv_def)
    obtain kids where mc: "msgContainer s = Some kids" and tk: "t \<in> el_id ` set kids"
      using stuck_inv_container [OF inv] by blast
    have lt: "t < next_id s"
      using inv by (simp add: stuck_inv_def)
    have "stuck_inv t (snd (sendMessage_resume outcome ?s'))"
      using ty mc tk lt
      by (cases "typingEl s")
         (auto simp: BodyJSON sendMessage_resume_def removeTypingIndicator_def appendMessage_def
            Let_def stuck_inv_def transcript_ids_def)
    then have "stuck_inv t (drop_promise (sendMessage_resume outcome ?s'))"
      by (cases "sendMessage_resume outcome ?s'") (simp add: stuck_inv_drop)
    then show ?thesis
      using True by (simp add: response_arrives_def)
  qed
qed

lemma stuck_inv_step:
  assumes "stuck_inv t s" and "\<not> succeeds_for t e"
  shows "stuck_inv t (chat_step e s)"
proof (cases e)
  case SendClick
  then show ?thesis using assms by (simp add: sendBtn_click_def stuck_inv_start)
next
  case (KeyPress key)
  then show ?thesis using assms by (simp add: inputField_keypress_def stuck_inv_start)
next
  case (VoiceResult results)
  then show ?thesis using assms by (simp add: recognition_result_def stuck_inv_start)
next
  case (Response token outcome)
  then show ?thesis using assms by (simp add: stuck_inv_response)
next
  case ToggleClick
  then show ?thesis
    using assms by (auto simp: toggle_click_def stuck_inv_def transcript_ids_def split: option.splits)
next
  case (VoiceClick supported)
  then show ?thesis
    using assms
    by (auto simp: voiceBtn_click_def Let_def stuck_inv_def transcript_ids_def split: option.splits)
qed

lemma stuck_inv_run:
  "stuck_inv t s \<Longrightarrow> \<not> list_ex (succeeds_for t) es \<Longrightarrow> stuck_inv t (chat_run es s)"
proof (induction es arbitrary: s)
  case Nil
  then show ?case by (simp add: chat_run_def)
next
  case (Cons e es)
  from Cons.prems have "stuck_inv t (chat_step e s)"
    by (simp add: stuck_inv_step)
  with Cons.prems Cons.IH [of "chat_step e s"] show ?case
    by (simp add: chat_run_def)
qed

lemma failed_response:
  assumes mc: "msgContainer st = Some kids"
    and src: "(text = None \<and> inputField st = Some v \<and> prompt = trim v) \<or> text = Some prompt"
    and p: "prompt \<noteq> []"
    and fail: "outcome = FetchRejects \<or> outcome = BodyNotJSON"
  shows "response_arrives (Suc (next_id st)) outcome (start_send text st) =
           (start_send text st)
             \<lparr>pending := removeAll (Suc (next_id st)) (pending st @ [Suc (next_id st)]),
              unhandled := unhandled st @ [if outcome = FetchRejects then NetworkFailure else SyntaxError]\<rparr>"
proof -
  note b = sendMessage_begin_sent [OF mc src p]
  show ?thesis
    using fail
    by (auto simp: start_send_def b response_arrives_def sendMessage_resume_def drop_promise_def)
qed

text \<open>
  Claim C5, as stated, fails for a send that starts while an earlier one is still
  suspended. Below, the second send (placeholder 3) fails, with its placeholder in the
  transcript and its rejection unhandled; the answer to the first send then removes
  placeholder 3.
\<close>

theorem failed_send_placeholder_removed:
  "transcript_ids
     (chat_run [SendClick, VoiceResult [js ''b''], Response 3 FetchRejects]
        (chat0\<lparr>inputField := Some (js ''a'')\<rparr>)) = [0, 1, 2, 3] \<and>
   unhandled
     (chat_run [SendClick, VoiceResult [js ''b''], Response 3 FetchRejects]
        (chat0\<lparr>inputField := Some (js ''a'')\<rparr>)) = [NetworkFailure] \<and>
   transcript_ids
     (chat_run [SendClick, VoiceResult [js ''b''], Response 3 FetchRejects,
                Response 1 (BodyJSON (Some (js ''ok'')))]
        (chat0\<lparr>inputField := Some (js ''a'')\<rparr>)) = [0, 1, 2, 4]"
  by (simp add: chat_run_def sendBtn_click_def recognition_result_def start_send_def
      response_arrives_def sendMessage_begin_def sendMessage_resume_def appendMessage_def
      appendTypingIndicator_def removeTypingIndicator_def drop_promise_def Let_def
      transcript_ids_def chat0_def trim_def js_def is_whitespace_def)

text \<open>
  Claim C5, amended. When the request of a send with a non-empty prompt fails (the fetch
  rejects, or the body is not JSON), the rest of \<^verbatim>\<open>sendMessage\<close> changes nothing in
  whatever state it runs and the promise is rejected: the send removes no placeholder and
  appends no bot message, so that right after the failure the transcript ends with the user
  message and the typing placeholder. Each listener that started the send (the send button,
  the Enter key, a voice result) has dropped the promise, so the rejection is unhandled. If
  no other send was in flight when this one started, the placeholder stays in the transcript
  through every later run of events in which this send gets no successful answer.
\<close>

theorem send_failure_unhandled:
  assumes mc: "msgContainer st = Some kids"
    and src: "(text = None \<and> inputField st = Some v \<and> prompt = trim v) \<or> text = Some prompt"
    and ne: "trim prompt \<noteq> []"
    and fail: "outcome = FetchRejects \<or> outcome = BodyNotJSON"
  shows \<open>sendMessage_resume outcome s =
           (Rejected (if outcome = FetchRejects then NetworkFailure else SyntaxError), s) \<and>
         msgContainer (response_arrives (Suc (next_id st)) outcome (start_send text st)) =
           Some (kids @
             [\<lparr>el_id = next_id st, className = ''message user'',
               innerHTML = js ''<div class="bubble">'' @ prompt @ js ''</div>''\<rparr>,
              \<lparr>el_id = Suc (next_id st), className = ''message bot'',
               innerHTML = js ''<div class="bubble">'' @ [0xD83C, 0xDF53] @
                           js '' BerryBot is typing'' @ [0x2026] @ js ''</div>''\<rparr>]) \<and>
         trace (response_arrives (Suc (next_id st)) outcome (start_send text st)) =
           trace st @ [AppendMessage ''user'' prompt] @
             (if text = None then [ClearInput] else []) @
             [AppendTyping,
              Fetch \<lparr>req_url = ''/api/berrybot'', req_method = ''POST'',
                     req_headers = [(''Content-Type'', ''application/json'')],
                     req_body = [(''prompt'', prompt)]\<rparr>] \<and>
         (text = None \<longrightarrow>
            unhandled (chat_run [SendClick, Response (Suc (next_id st)) outcome] st) =
              unhandled st @ [if outcome = FetchRejects then NetworkFailure else SyntaxError] \<and>
            unhandled (chat_run [KeyPress ''Enter'', Response (Suc (next_id st)) outcome] st) =
              unhandled st @ [if outcome = FetchRejects then NetworkFailure else SyntaxError]) \<and>
         (\<forall>results. text = Some (trim (concat results)) \<longrightarrow>
            unhandled (chat_run [VoiceResult results, Response (Suc (next_id st)) outcome] st) =
              unhandled st @ [if outcome = FetchRejects then NetworkFailure else SyntaxError]) \<and>
         (pending st = [] \<longrightarrow>
            (\<forall>es. \<not> list_ex (succeeds_for (Suc (next_id st))) es \<longrightarrow>
                  Suc (next_id st) \<in> set (transcript_ids (chat_run es (start_send text st)))))\<close>
proof -
  have p: "prompt \<noteq> []"
    using ne trim_Nil by auto
  note b = sendMessage_begin_sent [OF mc src p]
  note f = failed_response [OF mc src p fail]
  have ss: "start_send text st = snd (sendMessage_begin text st)"
    by (simp add: start_send_def b)
  have c0: "sendMessage_resume outcome s =
           (Rejected (if outcome = FetchRejects then NetworkFailure else SyntaxError), s)"
    using fail by (auto simp: sendMessage_resume_def)
  have c1: \<open>msgContainer (response_arrives (Suc (next_id st)) outcome (start_send text st)) =
           Some (kids @
             [\<lparr>el_id = next_id st, className = ''message user'',
               innerHTML = js ''<div class="bubble">'' @ prompt @ js ''</div>''\<rparr>,
              \<lparr>el_id = Suc (next_id st), className = ''message bot'',
               innerHTML = js ''<div class="bubble">'' @ [0xD83C, 0xDF53] @
                           js '' BerryBot is typing'' @ [0x2026] @ js ''</div>''\<rparr>])\<close>
    unfolding f unfolding ss b
    by (simp add: user_el_def typing_el_def bubble_def typing_html_def)
  have c2: \<open>trace (response_arrives (Suc (next_id st)) outcome (start_send text st)) =
           trace st @ [AppendMessage ''user'' prompt] @
             (if text = None then [ClearInput] else []) @
             [AppendTyping,
              Fetch \<lparr>req_url = ''/api/berrybot'', req_method = ''POST'',
                     req_headers = [(''Content-Type'', ''application/json'')],
                     req_body = [(''prompt'', prompt)]\<rparr>]\<close>
    unfolding f unfolding ss b
    by (simp add: berrybot_request_def)
  have u: "unhandled (response_arrives (Suc (next_id st)) outcome (start_send text st)) =
             unhandled st @ [if outcome = FetchRejects then NetworkFailure else SyntaxError]"
    by (simp add: f)
  have c3: "text = None \<longrightarrow>
            unhandled (chat_run [SendClick, Response (Suc (next_id st)) outcome] st) =
              unhandled st @ [if outcome = FetchRejects then NetworkFailure else SyntaxError] \<and>
            unhandled (chat_run [KeyPress ''Enter'', Response (Suc (next_id st)) outcome] st) =
              unhandled st @ [if outcome = FetchRejects then NetworkFailure else SyntaxError]"
    using u by (auto simp: chat_run_def sendBtn_click_def inputField_keypress_def)
  have c4: "\<forall>results. text = Some (trim (concat results)) \<longrightarrow>
            unhandled (chat_run [VoiceResult results, Response (Suc (next_id st)) outcome] st) =
              unhandled st @ [if outcome = FetchRejects then NetworkFailure else SyntaxError]"
    using u by (auto simp: chat_run_def recognition_result_def)
  have c5: "pending st = [] \<longrightarrow>
            (\<forall>es. \<not> list_ex (succeeds_for (Suc (next_id st))) es \<longrightarrow>
                  Suc (next_id st) \<in> set (transcript_ids (chat_run es (start_send text st))))"
  proof (intro impI allI)
    fix es
    assume e: "pending st = []" and n: "\<not> list_ex (succeeds_for (Suc (next_id st))) es"
    have "stuck_inv (Suc (next_id st)) (start_send text st)"
      using e by (simp add: start_send_def b stuck_inv_def transcript_ids_def typing_el_def)
    then have "stuck_inv (Suc (next_id st)) (chat_run es (start_send text st))"
      using n by (rule stuck_inv_run)
    then show "Suc (next_id st) \<in> set (transcript_ids (chat_run es (start_send text st)))"
      by (simp add: stuck_inv_def)
  qed
  from c0 c1 c2 c3 c4 c5 show ?thesis
    by blast
qed

theorem send_failure_unhandled_witness:
  \<open>msgContainer (chat0\<lparr>inputField := Some (js ''hello'')\<rparr>) = Some [] \<and>
   trim (js ''hello'') \<noteq> [] \<and>
   pending (chat0\<lparr>inputField := Some (js ''hello'')\<rparr>) = [] \<and>
   msgContainer (response_arrives 1 FetchRejects
                   (start_send None (chat0\<lparr>inputField := Some (js ''hello'')\<rparr>))) =
     Some [\<lparr>el_id = 0, className = ''message user'',
             innerHTML = js ''<div class="bubble">'' @ js ''hello'' @ js ''</div>''\<rparr>,
           \<lparr>el_id = 1, className = ''message bot'',
             innerHTML = js ''<div class="bubble">'' @ [0xD83C, 0xDF53] @
                         js '' BerryBot is typing'' @ [0x2026] @ js ''</div>''\<rparr>] \<and>
   unhandled (chat_run [SendClick, Response 1 FetchRejects]
                (chat0\<lparr>inputField := Some (js ''hello'')\<rparr>)) = [NetworkFailure] \<and>
   1 \<in> set (transcript_ids
          (chat_run [Response 1 FetchRejects, VoiceResult [js ''hi''],
                     Response 3 (BodyJSON (Some (js ''yo'')))]
             (start_send None (chat0\<lparr>inputField := Some (js ''hello'')\<rparr>))))\<close>
proof -
  let ?st = "chat0\<lparr>inputField := Some (js ''hello'')\<rparr>"
  have mc: "msgContainer ?st = Some []"
    by (simp add: chat0_def)
  have src: "(None = (None::jsstring option) \<and> inputField ?st = Some (js ''hello'') \<and>
              js ''hello'' = trim (js ''hello'')) \<or> None = Some (js ''hello'')"
    by (simp add: trim_hello)
  have ne: "trim (js ''hello'') \<noteq> []"
    by (simp only: trim_hello) (simp add: js_def)
  have fail: "FetchRejects = FetchRejects \<or> FetchRejects = BodyNotJSON"
    by simp
  have pe: "pending ?st = []" and n0: "next_id ?st = 0" and u0: "unhandled ?st = []"
    by (simp_all add: chat0_def)
  have ns: "\<not> list_ex (succeeds_for (Suc (next_id ?st)))
              [Response 1 FetchRejects, VoiceResult [js ''hi''], Response 3 (BodyJSON (Some (js ''yo'')))]"
    by (simp add: succeeds_for_def n0)
  note T = send_failure_unhandled [OF mc src ne fail]
  from T have t1: \<open>msgContainer (response_arrives (Suc (next_id ?st)) FetchRejects (start_send None ?st)) =
       Some ([] @
             [\<lparr>el_id = next_id ?st, className = ''message user'',
               innerHTML = js ''<div class="bubble">'' @ js ''hello'' @ js ''</div>''\<rparr>,
              \<lparr>el_id = Suc (next_id ?st), className = ''message bot'',
               innerHTML = js ''<div class="bubble">'' @ [0xD83C, 0xDF53] @
                           js '' BerryBot is typing'' @ [0x2026] @ js ''</div>''\<rparr>])\<close>
    by blast
  from T have t2: "unhandled (chat_run [SendClick, Response (Suc (next_id ?st)) FetchRejects] ?st) =
       unhandled ?st @ [if FetchRejects = FetchRejects then NetworkFailure else SyntaxError]"
    by blast
  from T pe ns have t3: "Suc (next_id ?st) \<in> set (transcript_ids
          (chat_run [Response 1 FetchRejects, VoiceResult [js ''hi''],
                     Response 3 (BodyJSON (Some (js ''yo'')))] (start_send None ?st)))"
    by blast
  show ?thesis
    using mc ne pe t1 t2 t3 by (simp add: n0 u0)
qed

text \<open>
  Claim C10. With the chat panel present, a click on the voice button does not throw and
  leaves the panel's classes as before without \<^verbatim>\<open>hidden\<close> and with \<^verbatim>\<open>visible\<close>,
  whether or not speech recognition is supported; when it is not, the only other effect is
  the alert. A click on the toggle button instead flips the membership of both classes.
\<close>

theorem voice_click_shows_panel:
  assumes "panel st = Some cl"
  shows "fst (voiceBtn_click supported st) = None \<and>
         (\<exists>cl'. panel (snd (voiceBtn_click supported st)) = Some cl' \<and>
                set cl' = (set cl - {''hidden''}) \<union> {''visible''}) \<and>
         (\<not> supported \<longrightarrow>
            alerts (snd (voiceBtn_click supported st)) =
              alerts st @ [''Speech recognition not supported in this browser.''] \<and>
            recognitions (snd (voiceBtn_click supported st)) = recognitions st) \<and>
         (\<exists>cl'. panel (snd (toggle_click st)) = Some cl' \<and>
                set cl' = (set cl - {''hidden'', ''visible''}) \<union> ({''hidden'', ''visible''} - set cl))"
  using assms
  by (auto simp: voiceBtn_click_def toggle_click_def Let_def classList_add_def
      classList_remove_def classList_toggle_def)

theorem voice_click_shows_panel_witness:
  "panel chat0 = Some [''hidden''] \<and>
   panel (snd (voiceBtn_click False chat0)) = Some [''visible''] \<and>
   alerts (snd (voiceBtn_click False chat0)) = [''Speech recognition not supported in this browser.''] \<and>
   panel (snd (voiceBtn_click False (snd (voiceBtn_click False chat0)))) = Some [''visible''] \<and>
   panel (snd (toggle_click (snd (voiceBtn_click False chat0)))) = Some [''hidden'']"
proof -
  have p: "panel chat0 = Some [''hidden'']"
    by (simp add: chat0_def)
  note T = voice_click_shows_panel [OF p, of False]
  from T have "fst (voiceBtn_click False chat0) = None"
    by blast
  then show ?thesis
    using p
    by (simp add: voiceBtn_click_def toggle_click_def chat0_def Let_def classList_add_def
        classList_remove_def classList_toggle_def)
qed

subsection \<open>Initialisation and the chart toggle\<close>

text \<open>
  Claim C9. Initialisation throws exactly when the chart toggle is absent. Listeners are
  registered only on elements that are present, and on each present element among those
  guarded by \<^verbatim>\<open>?.\<close>; an absent one is skipped silently. With the toggle present and
  the chart panel absent the grid injection is skipped; with both present the grid is
  rendered; with the toggle absent the throw comes before the injection, which leaves the
  panel as it was. The toggle's click listener throws when the chart panel is absent.
\<close>

theorem init_guards:
  "fst (page_init p) = (if ''chartToggle'' \<in> set (present_ids p) then None else Some TypeError) \<and>
   (\<forall>x ev. (ElementId x, ev) \<in> set (listeners (snd (page_init p))) \<longrightarrow> x \<in> set (present_ids p)) \<and>
   (\<forall>x \<in> set guarded_ids. x \<in> set (present_ids p) \<longrightarrow>
       (\<exists>ev. (ElementId x, ev) \<in> set (listeners (snd (page_init p))))) \<and>
   (''chartToggle'' \<in> set (present_ids p) \<and> chartPanel p = None \<longrightarrow>
       chart_children (snd (page_init p)) = None) \<and>
   (''chartToggle'' \<in> set (present_ids p) \<and> chartPanel p \<noteq> None \<longrightarrow>
       chart_children (snd (page_init p)) = Some (map render_card produceList)) \<and>
   (''chartToggle'' \<notin> set (present_ids p) \<longrightarrow>
       chart_children (snd (page_init p)) = chartPanel p) \<and>
   chartToggle_click None = Inl TypeError"
  by (auto simp: page_init_def Let_def listen_if_present_def guarded_ids_def chartToggle_click_def
       split: if_splits)

theorem init_guards_witness:
  "fst (page_init \<lparr>tab_btn_count = 2, present_ids = [''spinBtn'', ''chartToggle''], chartPanel = None\<rparr>)
     = None \<and>
   listeners (snd (page_init \<lparr>tab_btn_count = 2, present_ids = [''spinBtn'', ''chartToggle''],
                              chartPanel = None\<rparr>)) =
     [(TabButton 0, ''click''), (TabButton 1, ''click''), (ElementId ''spinBtn'', ''click''),
      (ElementId ''chartToggle'', ''click'')] \<and>
   chart_children (snd (page_init \<lparr>tab_btn_count = 2, present_ids = [''spinBtn'', ''chartToggle''],
                              chartPanel = None\<rparr>)) = None \<and>
   fst (page_init \<lparr>tab_btn_count = 2, present_ids = [''spinBtn''], chartPanel = Some []\<rparr>)
     = Some TypeError \<and>
   chart_children (snd (page_init \<lparr>tab_btn_count = 2, present_ids = [''spinBtn''],
                              chartPanel = Some []\<rparr>)) = Some []"
proof -
  note A = init_guards [of "\<lparr>tab_btn_count = 2, present_ids = [''spinBtn'', ''chartToggle''], chartPanel = None\<rparr>"]
  note B = init_guards [of "\<lparr>tab_btn_count = 2, present_ids = [''spinBtn''], chartPanel = Some []\<rparr>"]
  have l: "listeners (snd (page_init \<lparr>tab_btn_count = 2, present_ids = [''spinBtn'', ''chartToggle''],
                              chartPanel = None\<rparr>)) =
     [(TabButton 0, ''click''), (TabButton 1, ''click''), (ElementId ''spinBtn'', ''click''),
      (ElementId ''chartToggle'', ''click'')]"
    by (simp add: page_init_def Let_def listen_if_present_def upt_rec)
  from A B l show ?thesis
    by simp
qed


end
